theory Spec2Isabelle
  imports Complex_Main "HOL-Library.While_Combinator"
begin

section \<open>The benchmark script \<^verbatim>\<open>bench_python.py\<close> as a state-passing program\<close>

text \<open>
  The script reads the wall clock (\<^verbatim>\<open>time.time()\<close>), runs five counting loops and
  prints one line per \<^verbatim>\<open>print\<close> call. Both effects are made explicit in a record:
  \<^item> \<open>clock\<close> gives the time at the \<open>n\<close>-th call of \<^verbatim>\<open>time.time()\<close> and \<open>ticks\<close> counts
    the calls made so far, so that a run is determined by the assignment of timestamp
    readings;
  \<^item> \<open>out\<close> is standard output: the list of the lines printed so far, one entry per call
    of \<^verbatim>\<open>print\<close>.

  Python's \<^verbatim>\<open>int\<close> is \<open>int\<close>. A Python \<^verbatim>\<open>float\<close> is an IEEE 754 binary64 value:
  \<open>pyfloat\<close> has the finite values, each given by the rational number it denotes (the
  positive zero is \<open>Fin 0\<close>), the negative zero, the two infinities and NaN. Float
  arithmetic is modelled as the machine does it: the difference \<^verbatim>\<open>end - start\<close>, the
  quotient \<^verbatim>\<open>limit / sec\<close> and the sum \<^verbatim>\<open>val + 1.1\<close> are the exact results rounded to
  the nearest binary64 value, a tie going to the even significand, with overflow to an
  infinity and underflow through the subnormal numbers to a signed zero. The conversion
  of a float to decimal text is modelled exactly as well.
\<close>

subsection \<open>Values, errors and the world\<close>

datatype error = ZeroDivisionError | OverflowError

datatype pyfloat = Fin rat | NegZero | PosInf | NegInf | NaN

record world =
  clock :: "nat \<Rightarrow> rat"
  ticks :: nat
  out :: "string list"

text \<open>\<^verbatim>\<open>print(line)\<close>: one more line on standard output.\<close>

definition print :: "string \<Rightarrow> world \<Rightarrow> world" where
  "print line w = w\<lparr>out := out w @ [line]\<rparr>"

subsection \<open>Binary64 arithmetic\<close>

text \<open>
  Rounding to the nearest integer, a tie going to the even neighbour, for \<open>x \<ge> 0\<close>. It
  is used twice: for the significand of a float and for the decimals of its text.
\<close>

definition round_half_even :: "rat \<Rightarrow> nat" where
  "round_half_even x =
     (let f = \<lfloor>x\<rfloor>; d = x - of_int f
      in nat (if d < 1 / 2 then f else if 1 / 2 < d then f + 1
              else if even f then f else f + 1))"

text \<open>
  \<open>bit_length n\<close> is the number of binary digits of \<open>n\<close>, \<open>pow2 k\<close> is \<open>2\<close> to the power
  \<open>k\<close> for an integer \<open>k\<close>, and \<open>ilog2 a\<close>, for \<open>a > 0\<close>, is the exponent of \<open>a\<close>: the
  greatest \<open>e\<close> with \<open>2 ^ e \<le> a\<close>.
\<close>

function bit_length :: "nat \<Rightarrow> nat" where
  "bit_length n = (if n = 0 then 0 else Suc (bit_length (n div 2)))"
  by pat_completeness auto
termination
  by (relation "measure id") auto

definition pow2 :: "int \<Rightarrow> rat" where
  "pow2 k = (if 0 \<le> k then 2 ^ nat k else 1 / 2 ^ nat (- k))"

definition ilog2 :: "rat \<Rightarrow> int" where
  "ilog2 a =
     (if 1 \<le> a then int (bit_length (nat \<lfloor>a\<rfloor>)) - 1
      else - int (bit_length (nat (\<lceil>1 / a\<rceil> - 1))))"

text \<open>
  \<open>b64 x\<close> is the binary64 value that the real number \<open>x\<close> rounds to. A binary64 value
  has a significand of 53 bits and an exponent of at least \<open>-1022\<close>: near \<open>x\<close> the
  representable numbers are the multiples of \<open>u = 2 ^ (e - 52)\<close>, where \<open>e\<close> is the
  exponent of \<open>\<bar>x\<bar>\<close>, or \<open>-1022\<close> when that is smaller (the subnormal range, whose
  numbers are the multiples of \<open>2 ^ -1074\<close>). The magnitude is rounded to the nearest
  multiple, a tie going to the even one; a result of \<open>2 ^ 1024\<close> or more is an infinity,
  and a non-zero \<open>x\<close> that rounds to zero gives the zero of its sign.
\<close>

definition b64 :: "rat \<Rightarrow> pyfloat" where
  "b64 x =
     (if x = 0 then Fin 0
      else let a = \<bar>x\<bar>;
               e = max (ilog2 a) (- 1022);
               u = pow2 (e - 52);
               r = of_nat (round_half_even (a / u)) * u
           in if pow2 1024 \<le> r then (if x < 0 then NegInf else PosInf)
              else if r = 0 then (if x < 0 then NegZero else Fin 0)
              else Fin (if x < 0 then - r else r))"

fun is_zero :: "pyfloat \<Rightarrow> bool" where
  "is_zero (Fin q) = (q = 0)"
| "is_zero NegZero = True"
| "is_zero PosInf = False"
| "is_zero NegInf = False"
| "is_zero NaN = False"

fun is_inf :: "pyfloat \<Rightarrow> bool" where
  "is_inf (Fin q) = False"
| "is_inf NegZero = False"
| "is_inf PosInf = True"
| "is_inf NegInf = True"
| "is_inf NaN = False"

text \<open>The sign bit of a float, and the value of a finite one.\<close>

fun sign_bit :: "pyfloat \<Rightarrow> bool" where
  "sign_bit (Fin q) = (q < 0)"
| "sign_bit NegZero = True"
| "sign_bit PosInf = False"
| "sign_bit NegInf = True"
| "sign_bit NaN = False"

fun float_val :: "pyfloat \<Rightarrow> rat" where
  "float_val (Fin q) = q"
| "float_val NegZero = 0"
| "float_val PosInf = 0"
| "float_val NegInf = 0"
| "float_val NaN = 0"

text \<open>
  \<^verbatim>\<open>-x\<close>, \<^verbatim>\<open>x + y\<close> and \<^verbatim>\<open>x - y\<close> on floats. A NaN operand gives NaN, as does the sum of
  the two infinities; an infinity absorbs every other operand. The sum of two finite
  floats is their exact sum rounded; an exact sum of zero is the positive zero, unless
  both operands are the negative zero. The difference \<open>x - y\<close> is the sum of \<open>x\<close> and
  \<open>-y\<close>.
\<close>

fun fneg :: "pyfloat \<Rightarrow> pyfloat" where
  "fneg (Fin q) = (if q = 0 then NegZero else Fin (- q))"
| "fneg NegZero = Fin 0"
| "fneg PosInf = NegInf"
| "fneg NegInf = PosInf"
| "fneg NaN = NaN"

definition fadd :: "pyfloat \<Rightarrow> pyfloat \<Rightarrow> pyfloat" where
  "fadd x y =
     (if x = NaN \<or> y = NaN then NaN
      else if is_inf x then (if is_inf y \<and> x \<noteq> y then NaN else x)
      else if is_inf y then y
      else if float_val x + float_val y = 0
        then (if x = NegZero \<and> y = NegZero then NegZero else Fin 0)
      else b64 (float_val x + float_val y))"

definition fsub :: "pyfloat \<Rightarrow> pyfloat \<Rightarrow> pyfloat" where
  "fsub x y = fadd x (fneg y)"

text \<open>
  The IEEE quotient of two floats. The sign of the result is negative when the signs of
  the operands differ. A NaN operand gives NaN, as do the quotient of two infinities and
  that of two zeros; an infinity divided by a finite float and a non-zero float divided
  by a zero are infinities; a finite float divided by an infinity and a zero divided by a
  non-zero float are zeros; every other quotient is the exact quotient rounded.
\<close>

definition fdiv :: "pyfloat \<Rightarrow> pyfloat \<Rightarrow> pyfloat" where
  "fdiv x y =
     (let neg = (sign_bit x \<noteq> sign_bit y)
      in if x = NaN \<or> y = NaN then NaN
         else if is_inf x then (if is_inf y then NaN else if neg then NegInf else PosInf)
         else if is_inf y then (if neg then NegZero else Fin 0)
         else if is_zero y then (if is_zero x then NaN else if neg then NegInf else PosInf)
         else if is_zero x then (if neg then NegZero else Fin 0)
         else b64 (float_val x / float_val y))"

text \<open>
  The conversion of an \<^verbatim>\<open>int\<close> to a \<^verbatim>\<open>float\<close>, which Python applies to the left operand
  of \<^verbatim>\<open>a / b\<close> when \<open>b\<close> is a float: the integer is rounded to binary64, and
  \<^verbatim>\<open>OverflowError\<close> is raised when it is too large for a finite float.
\<close>

definition float_of_int :: "int \<Rightarrow> error + pyfloat" where
  "float_of_int a = (let x = b64 (of_int a) in if is_inf x then Inl OverflowError else Inr x)"

text \<open>
  \<^verbatim>\<open>a / b\<close> for an \<^verbatim>\<open>int\<close> \<open>a\<close> and a \<^verbatim>\<open>float\<close> \<open>b\<close>: \<open>a\<close> is converted to a float, then
  Python raises \<^verbatim>\<open>ZeroDivisionError\<close> when \<open>b\<close> is a zero (\<^verbatim>\<open>b == 0.0\<close>, which holds of
  both zeros) and returns the IEEE quotient otherwise.
\<close>

definition truediv :: "int \<Rightarrow> pyfloat \<Rightarrow> error + pyfloat" where
  "truediv a b =
     (case float_of_int a of
        Inl e \<Rightarrow> Inl e
      | Inr x \<Rightarrow> if is_zero b then Inl ZeroDivisionError else Inr (fdiv x b))"

text \<open>
  \<^verbatim>\<open>time.time()\<close>: the next reading of the clock, as a float. \<open>clock w n\<close> is the time in
  seconds at the \<open>n\<close>-th call and \<open>reading w n\<close> the float that the call returns.
\<close>

definition reading :: "world \<Rightarrow> nat \<Rightarrow> pyfloat" where
  "reading w n = b64 (clock w n)"

definition time_time :: "world \<Rightarrow> pyfloat \<times> world" where
  "time_time w = (reading w (ticks w), w\<lparr>ticks := Suc (ticks w)\<rparr>)"

subsection \<open>Format specifications\<close>

text \<open>
  \<^verbatim>\<open>{s:<n}\<close> and \<^verbatim>\<open>{s:>n}\<close> for a string \<open>s\<close>: spaces are added after (before) the text
  up to the width \<open>n\<close>; a longer text is left as it is.
\<close>

definition ljust :: "nat \<Rightarrow> string \<Rightarrow> string" where
  "ljust n s = s @ replicate (n - length s) CHR '' ''"

definition rjust :: "nat \<Rightarrow> string \<Rightarrow> string" where
  "rjust n s = replicate (n - length s) CHR '' '' @ s"

definition digit :: "nat \<Rightarrow> char" where
  "digit d = ''0123456789'' ! d"

text \<open>The decimal digits of a natural number, without leading zeros.\<close>

function str_nat :: "nat \<Rightarrow> string" where
  "str_nat n = (if n < 10 then [digit n] else str_nat (n div 10) @ [digit (n mod 10)])"
  by pat_completeness auto
termination
  by (relation "measure id") auto

text \<open>The \<open>p\<close> low-order decimal digits of \<open>n\<close>, with leading zeros.\<close>

fun frac_digits :: "nat \<Rightarrow> nat \<Rightarrow> string" where
  "frac_digits 0 n = []"
| "frac_digits (Suc p) n = frac_digits p (n div 10) @ [digit (n mod 10)]"

text \<open>The \<^verbatim>\<open>,\<close> option: a comma before every group of three digits, counted from the right.\<close>

function group3 :: "string \<Rightarrow> string" where
  "group3 ds =
     (if length ds \<le> 3 then ds
      else group3 (take (length ds - 3) ds) @ '','' @ drop (length ds - 3) ds)"
  by pat_completeness auto
termination
  by (relation "measure length") auto

text \<open>
  The conversion of a float to \<open>p\<close> decimals is correctly rounded: the exact value is
  rounded to the nearest multiple of \<open>10 ^ -p\<close>, a tie going to the even neighbour.
\<close>

definition fixed_point :: "bool \<Rightarrow> nat \<Rightarrow> bool \<Rightarrow> rat \<Rightarrow> string" where
  "fixed_point comma p neg m =
     (let n = round_half_even (m * 10 ^ p);
          ip = str_nat (n div 10 ^ p)
      in (if neg then ''-'' else '''') @ (if comma then group3 ip else ip) @
         (if p = 0 then '''' else ''.'' @ frac_digits p n))"

text \<open>
  \<^verbatim>\<open>{x:,.2f}\<close> is \<open>format_f True 2 x\<close> and \<^verbatim>\<open>{x:.4f}\<close> is \<open>format_f False 4 x\<close>. The sign is
  that of the float (a negative value that rounds to zero keeps its minus sign, as does
  the negative zero); an infinity and a NaN are rendered by name, without digits.
\<close>

fun format_f :: "bool \<Rightarrow> nat \<Rightarrow> pyfloat \<Rightarrow> string" where
  "format_f comma p (Fin q) = fixed_point comma p (q < 0) \<bar>q\<bar>"
| "format_f comma p NegZero = fixed_point comma p True 0"
| "format_f comma p PosInf = ''inf''"
| "format_f comma p NegInf = ''-inf''"
| "format_f comma p NaN = ''nan''"

subsection \<open>The report\<close>

definition print_header :: "world \<Rightarrow> world" where
  "print_header w0 =
     (let w1 = print ''  -------------------------------------------------------------'' w0;
          w2 = print (''  '' @ ljust 15 ''Benchmark'' @ '' | '' @ rjust 15 ''Performance'' @ '' | Time'') w1
      in print ''  -------------------------------------------------------------'' w2)"

definition print_result :: "string \<Rightarrow> pyfloat \<Rightarrow> pyfloat \<Rightarrow> world \<Rightarrow> world" where
  "print_result name ops sec w =
     (let ops_str = format_f True 2 ops
      in print (''  '' @ ljust 15 name @ '' | '' @ rjust 15 ops_str @ '' OPS/sec | '' @
                format_f False 4 sec @ ''s'') w)"

subsection \<open>The five benchmarks\<close>

text \<open>
  Every loop is \<^verbatim>\<open>while i < limit: body\<close>. The body is a function on the local
  variables that the loop changes; the loop is the recursion that repeats it while the
  guard holds, and returns the variables as the loop leaves them.

  Every benchmark \<^verbatim>\<open>bench_x\<close> is given twice. \<open>bench_x_exec\<close> is the body of the Python
  function: beside the outcome (the world after the row has been printed, or the
  exception raised with the world at that point) it gives the local variables of the
  loop as they are when the function is left. \<open>bench_x\<close> is the function as its caller
  sees it: the locals are dropped.
\<close>

text \<open>\<^verbatim>\<open>bench_int\<close>: the body is \<^verbatim>\<open>i += 1\<close>.\<close>

definition bench_int_body :: "int \<Rightarrow> int" where
  "bench_int_body i = i + 1"

function bench_int_loop :: "int \<Rightarrow> int \<Rightarrow> int" where
  "bench_int_loop limit i =
     (if i < limit then bench_int_loop limit (bench_int_body i) else i)"
  by pat_completeness auto
termination
  by (relation "measure (\<lambda>(limit, i). nat (limit - i))") (auto simp: bench_int_body_def)

definition bench_int_exec :: "world \<Rightarrow> int \<times> (error \<times> world + world)" where
  "bench_int_exec w0 =
     (let limit = 1000000000;
          (start, w1) = time_time w0;
          i = bench_int_loop limit 0;
          (endt, w2) = time_time w1;
          sec = fsub endt start
      in (i, case truediv limit sec of
               Inl e \<Rightarrow> Inl (e, w2)
             | Inr ops \<Rightarrow> Inr (print_result ''Integer Add'' ops sec w2)))"

definition bench_int :: "world \<Rightarrow> error \<times> world + world" where
  "bench_int w0 = snd (bench_int_exec w0)"

text \<open>
  \<^verbatim>\<open>bench_double\<close>: the body is \<^verbatim>\<open>val += 1.1; i += 1\<close>. The literal \<^verbatim>\<open>1.1\<close> denotes the
  binary64 value nearest to it, the literal \<^verbatim>\<open>0.0\<close> the positive zero, and \<^verbatim>\<open>+=\<close> is
  the float addition.
\<close>

definition float_1_1 :: pyfloat where
  "float_1_1 = b64 (11 / 10)"

fun bench_double_body :: "pyfloat \<times> int \<Rightarrow> pyfloat \<times> int" where
  "bench_double_body (val, i) = (fadd val float_1_1, i + 1)"

function bench_double_loop :: "int \<Rightarrow> pyfloat \<times> int \<Rightarrow> pyfloat \<times> int" where
  "bench_double_loop limit (val, i) =
     (if i < limit then bench_double_loop limit (bench_double_body (val, i)) else (val, i))"
  by pat_completeness auto
termination
  by (relation "measure (\<lambda>(limit, val, i). nat (limit - i))") auto

definition bench_double_exec :: "world \<Rightarrow> (pyfloat \<times> int) \<times> (error \<times> world + world)" where
  "bench_double_exec w0 =
     (let limit = 100000000;
          val = Fin 0;
          (start, w1) = time_time w0;
          (val, i) = bench_double_loop limit (val, 0);
          (endt, w2) = time_time w1;
          sec = fsub endt start
      in ((val, i), case truediv limit sec of
                      Inl e \<Rightarrow> Inl (e, w2)
                    | Inr ops \<Rightarrow> Inr (print_result ''Double Arith'' ops sec w2)))"

definition bench_double :: "world \<Rightarrow> error \<times> world + world" where
  "bench_double w0 = snd (bench_double_exec w0)"

text \<open>\<^verbatim>\<open>bench_string\<close>: the body is \<^verbatim>\<open>s += "a"; i += 1\<close>.\<close>

fun bench_string_body :: "string \<times> int \<Rightarrow> string \<times> int" where
  "bench_string_body (s, i) = (s @ ''a'', i + 1)"

function bench_string_loop :: "int \<Rightarrow> string \<times> int \<Rightarrow> string \<times> int" where
  "bench_string_loop limit (s, i) =
     (if i < limit then bench_string_loop limit (bench_string_body (s, i)) else (s, i))"
  by pat_completeness auto
termination
  by (relation "measure (\<lambda>(limit, s, i). nat (limit - i))") auto

definition bench_string_exec :: "world \<Rightarrow> (string \<times> int) \<times> (error \<times> world + world)" where
  "bench_string_exec w0 =
     (let limit = 50000;
          (start, w1) = time_time w0;
          (s, i) = bench_string_loop limit ('''', 0);
          (endt, w2) = time_time w1;
          sec = fsub endt start
      in ((s, i), case truediv limit sec of
                    Inl e \<Rightarrow> Inl (e, w2)
                  | Inr ops \<Rightarrow> Inr (print_result ''String Concat'' ops sec w2)))"

definition bench_string :: "world \<Rightarrow> error \<times> world + world" where
  "bench_string w0 = snd (bench_string_exec w0)"

text \<open>\<^verbatim>\<open>bench_array\<close>: the body is \<^verbatim>\<open>arr.append(i); i += 1\<close>.\<close>

fun bench_array_body :: "int list \<times> int \<Rightarrow> int list \<times> int" where
  "bench_array_body (arr, i) = (arr @ [i], i + 1)"

function bench_array_loop :: "int \<Rightarrow> int list \<times> int \<Rightarrow> int list \<times> int" where
  "bench_array_loop limit (arr, i) =
     (if i < limit then bench_array_loop limit (bench_array_body (arr, i)) else (arr, i))"
  by pat_completeness auto
termination
  by (relation "measure (\<lambda>(limit, arr, i). nat (limit - i))") auto

definition bench_array_exec :: "world \<Rightarrow> (int list \<times> int) \<times> (error \<times> world + world)" where
  "bench_array_exec w0 =
     (let limit = 1000000;
          (start, w1) = time_time w0;
          (arr, i) = bench_array_loop limit ([], 0);
          (endt, w2) = time_time w1;
          sec = fsub endt start
      in ((arr, i), case truediv limit sec of
                      Inl e \<Rightarrow> Inl (e, w2)
                    | Inr ops \<Rightarrow> Inr (print_result ''Array Push'' ops sec w2)))"

definition bench_array :: "world \<Rightarrow> error \<times> world + world" where
  "bench_array w0 = snd (bench_array_exec w0)"

text \<open>
  \<^verbatim>\<open>bench_struct\<close>: the class \<^verbatim>\<open>Obj\<close> has the one attribute \<^verbatim>\<open>val\<close>, which
  \<^verbatim>\<open>__init__\<close> sets to \<open>0\<close>. The body is \<^verbatim>\<open>o.val = i; x = o.val; i += 1\<close>. The local
  \<^verbatim>\<open>x\<close> is unbound until the first iteration assigns it, hence the option. (The local
  \<^verbatim>\<open>o\<close> is written \<open>obj\<close>.)
\<close>

record Obj =
  val :: int

definition Obj_init :: Obj where
  "Obj_init = \<lparr>val = 0\<rparr>"

fun bench_struct_body :: "Obj \<times> int option \<times> int \<Rightarrow> Obj \<times> int option \<times> int" where
  "bench_struct_body (obj, x, i) =
     (let obj1 = obj\<lparr>val := i\<rparr>;
          x1 = Some (val obj1)
      in (obj1, x1, i + 1))"

function bench_struct_loop ::
  "int \<Rightarrow> Obj \<times> int option \<times> int \<Rightarrow> Obj \<times> int option \<times> int" where
  "bench_struct_loop limit (obj, x, i) =
     (if i < limit then bench_struct_loop limit (bench_struct_body (obj, x, i))
      else (obj, x, i))"
  by pat_completeness auto
termination
  by (relation "measure (\<lambda>(limit, obj, x, i). nat (limit - i))") (auto simp: Let_def)

definition bench_struct_exec ::
  "world \<Rightarrow> (Obj \<times> int option \<times> int) \<times> (error \<times> world + world)" where
  "bench_struct_exec w0 =
     (let limit = 50000000;
          obj = Obj_init;
          (start, w1) = time_time w0;
          (obj, x, i) = bench_struct_loop limit (obj, None, 0);
          (endt, w2) = time_time w1;
          sec = fsub endt start
      in ((obj, x, i), case truediv limit sec of
                         Inl e \<Rightarrow> Inl (e, w2)
                       | Inr ops \<Rightarrow> Inr (print_result ''Struct Access'' ops sec w2)))"

definition bench_struct :: "world \<Rightarrow> error \<times> world + world" where
  "bench_struct w0 = snd (bench_struct_exec w0)"

subsection \<open>The entry point\<close>

text \<open>
  The block under \<^verbatim>\<open>if __name__ == "__main__"\<close>. An exception that a benchmark raises
  is caught nowhere: it ends the run, with the world as it was when it was raised.
\<close>

definition main :: "world \<Rightarrow> error \<times> world + world" where
  "main w0 =
     (let w1 = print ''>>> Python 3 Benchmark Suite <<<'' w0;
          w2 = print_header w1
      in case bench_int w2 of Inl e \<Rightarrow> Inl e | Inr w3 \<Rightarrow>
         case bench_double w3 of Inl e \<Rightarrow> Inl e | Inr w4 \<Rightarrow>
         case bench_string w4 of Inl e \<Rightarrow> Inl e | Inr w5 \<Rightarrow>
         case bench_array w5 of Inl e \<Rightarrow> Inl e | Inr w6 \<Rightarrow>
         case bench_struct w6 of Inl e \<Rightarrow> Inl e | Inr w7 \<Rightarrow>
           Inr (print '''' (print ''  -------------------------------------------------------------'' w7)))"

section \<open>Notions used in the statements\<close>

text \<open>
  The definitions of this section are not part of the script: they name what the
  statements below speak about.

  A benchmark that starts in the world \<open>w\<close> reads the clock twice; \<open>elapsed w\<close> is the
  end timestamp minus the start timestamp that it gets, as the float subtraction gives
  it. In a run that starts in \<open>w\<close>, benchmark \<open>k\<close> (counted from \<open>0\<close>) gets the readings
  \<open>2 * k\<close> and \<open>2 * k + 1\<close> after those already made; \<open>sample w k\<close> is its elapsed time.
  An elapsed time reads as zero when it is one of the two zeros (\<open>is_zero\<close>).
\<close>

definition elapsed :: "world \<Rightarrow> pyfloat" where
  "elapsed w = fsub (reading w (Suc (ticks w))) (reading w (ticks w))"

definition sample :: "world \<Rightarrow> nat \<Rightarrow> pyfloat" where
  "sample w k = fsub (reading w (ticks w + 2 * k + 1)) (reading w (ticks w + 2 * k))"

text \<open>The world in which a run ends, whether it returns or raises.\<close>

fun final :: "error \<times> world + world \<Rightarrow> world" where
  "final (Inl (e, w)) = w"
| "final (Inr w) = w"

text \<open>The fixed lines of the report, and the layout of a row with the texts \<open>a\<close> and \<open>b\<close> as its numeric fields.\<close>

definition title_line :: string where
  "title_line = ''>>> Python 3 Benchmark Suite <<<''"

definition rule_line :: string where
  "rule_line = ''  -------------------------------------------------------------''"

definition header_line :: string where
  "header_line = ''  Benchmark       |     Performance | Time''"

definition data_row :: "string \<Rightarrow> string \<Rightarrow> string \<Rightarrow> string" where
  "data_row name a b =
     ''  '' @ name @ replicate (15 - length name) CHR '' '' @ '' | '' @
     replicate (15 - length a) CHR '' '' @ a @ '' OPS/sec | '' @ b @ ''s''"

text \<open>
  The row of a benchmark with the label \<open>name\<close>, the iteration count \<open>n\<close> and the elapsed
  time \<open>sec\<close>: its throughput is the float quotient of \<open>n\<close> by \<open>sec\<close>.
\<close>

definition row :: "string \<Rightarrow> int \<Rightarrow> pyfloat \<Rightarrow> string" where
  "row name n sec =
     data_row name (format_f True 2 (fdiv (Fin (of_int n)) sec)) (format_f False 4 sec)"

text \<open>The table of the five benchmarks, and the rows of the first \<open>k\<close> of them in a run from \<open>w\<close>.\<close>

definition suite :: "(string \<times> int) list" where
  "suite = [(''Integer Add'', 1000000000), (''Double Arith'', 100000000),
            (''String Concat'', 50000), (''Array Push'', 1000000),
            (''Struct Access'', 50000000)]"

definition rows :: "world \<Rightarrow> nat \<Rightarrow> string list" where
  "rows w k = map (\<lambda>j. row (fst (suite ! j)) (snd (suite ! j)) (sample w j)) [0..<k]"

text \<open>
  \<open>at_bench w k ls\<close> is the world of a run from \<open>w\<close> in which the title, the header and then
  the lines \<open>ls\<close> have been printed and the clock has been read \<open>2 * k\<close> times. A run is
  \<open>stopped\<close> at benchmark \<open>k\<close> when that benchmark raises the division error after its two
  readings, with the rows of the benchmarks before it printed; it is \<open>finished\<close> when the five
  rows, the closing rule and the empty line have been printed.
\<close>

definition report_head :: "string list" where
  "report_head = [title_line, rule_line, header_line, rule_line]"

definition at_bench :: "world \<Rightarrow> nat \<Rightarrow> string list \<Rightarrow> world" where
  "at_bench w k ls = w\<lparr>ticks := ticks w + 2 * k, out := out w @ report_head @ ls\<rparr>"

definition stopped :: "world \<Rightarrow> nat \<Rightarrow> error \<times> world + world" where
  "stopped w k = Inl (ZeroDivisionError, at_bench w (k + 1) (rows w k))"

definition finished :: "world \<Rightarrow> error \<times> world + world" where
  "finished w = Inr (at_bench w 5 (rows w 5 @ [rule_line, '''']))"

text \<open>The world at the start of a process: no reading made, nothing printed.\<close>

definition fresh :: "(nat \<Rightarrow> rat) \<Rightarrow> world" where
  "fresh c = \<lparr>clock = c, ticks = 0, out = []\<rparr>"

text \<open>
  A timing probe with the label \<open>name\<close> and the iteration count \<open>n\<close>: two readings of the
  clock, then the division error when their difference is zero, and otherwise the row
  with the throughput \<open>n / elapsed\<close>, one float division.
\<close>

definition timed :: "string \<Rightarrow> int \<Rightarrow> world \<Rightarrow> error \<times> world + world" where
  "timed name n w =
     (if is_zero (elapsed w) then Inl (ZeroDivisionError, w\<lparr>ticks := ticks w + 2\<rparr>)
      else Inr (print_result name (fdiv (Fin (of_int n)) (elapsed w)) (elapsed w)
                  (w\<lparr>ticks := ticks w + 2\<rparr>)))"

text \<open>The lines that a run started in \<open>w\<close> adds to standard output, whether it finishes or not.\<close>

definition report_of :: "world \<Rightarrow> string list" where
  "report_of w = drop (length (out w)) (out (final (main w)))"

text \<open>
  Reading a line by columns: the texts between the separators \<^verbatim>\<open>|\<close>, without the spaces
  around them. The label of a row is the text before the first separator.
\<close>

definition strip :: "string \<Rightarrow> string" where
  "strip s = rev (dropWhile (\<lambda>c. c = CHR '' '') (rev (dropWhile (\<lambda>c. c = CHR '' '') s)))"

fun split_bar :: "string \<Rightarrow> string list" where
  "split_bar [] = [[]]"
| "split_bar (c # cs) =
     (if c = CHR ''|'' then [] # split_bar cs
      else (case split_bar cs of f # fs \<Rightarrow> (c # f) # fs | [] \<Rightarrow> [[c]]))"

definition columns :: "string \<Rightarrow> string list" where
  "columns line = map strip (split_bar line)"

definition label :: "string \<Rightarrow> string" where
  "label line = strip (takeWhile (\<lambda>c. c \<noteq> CHR ''|'') line)"

text \<open>
  Decimal text. \<open>grouped_digits\<close> accepts one to three digits followed by any number of
  groups of a comma and exactly three digits; \<open>decimal_text comma p\<close> accepts an optional
  minus sign, an integer part (grouped when \<open>comma\<close> holds, plain digits otherwise), a
  point and exactly \<open>p\<close> digits; \<open>decimal_value\<close> is the number that such a text denotes.
\<close>

definition is_digit :: "char \<Rightarrow> bool" where
  "is_digit c = (c \<in> set ''0123456789'')"

fun comma_groups :: "string \<Rightarrow> bool" where
  "comma_groups [] = True"
| "comma_groups (c # x # y # z # rest) =
     (c = CHR '','' \<and> is_digit x \<and> is_digit y \<and> is_digit z \<and> comma_groups rest)"
| "comma_groups _ = False"

definition grouped_digits :: "string \<Rightarrow> bool" where
  "grouped_digits s =
     (let h = takeWhile is_digit s
      in 1 \<le> length h \<and> length h \<le> 3 \<and> comma_groups (drop (length h) s))"

definition plain_digits :: "string \<Rightarrow> bool" where
  "plain_digits s = (s \<noteq> [] \<and> list_all is_digit s)"

definition decimal_text :: "bool \<Rightarrow> nat \<Rightarrow> string \<Rightarrow> bool" where
  "decimal_text comma p s =
     (let t = (if take 1 s = ''-'' then drop 1 s else s);
          ip = takeWhile (\<lambda>c. c \<noteq> CHR ''.'') t;
          fr = drop (length ip) t
      in (if comma then grouped_digits ip else plain_digits ip) \<and>
         length fr = Suc p \<and> take 1 fr = ''.'' \<and> list_all is_digit (drop 1 fr))"

definition digit_value :: "char \<Rightarrow> nat" where
  "digit_value c = of_char c - 48"

definition digits_value :: "string \<Rightarrow> nat" where
  "digits_value s = foldl (\<lambda>a c. 10 * a + digit_value c) 0 s"

definition decimal_value :: "string \<Rightarrow> rat" where
  "decimal_value s =
     (let neg = (take 1 s = ''-'');
          t = (if neg then drop 1 s else s);
          ip = filter (\<lambda>c. c \<noteq> CHR '','') (takeWhile (\<lambda>c. c \<noteq> CHR ''.'') t);
          fr = drop 1 (dropWhile (\<lambda>c. c \<noteq> CHR ''.'') t);
          m = of_nat (digits_value ip) + of_nat (digits_value fr) / 10 ^ length fr
      in if neg then - m else m)"

fun is_finite :: "pyfloat \<Rightarrow> bool" where
  "is_finite (Fin q) = True"
| "is_finite NegZero = True"
| "is_finite PosInf = False"
| "is_finite NegInf = False"
| "is_finite NaN = False"

text \<open>
  A numeric field is a decimal text when the float is finite; an infinity or a NaN is
  rendered by its name.
\<close>

definition numeric_text :: "bool \<Rightarrow> nat \<Rightarrow> string \<Rightarrow> bool" where
  "numeric_text comma p s = (decimal_text comma p s \<or> s \<in> {''inf'', ''-inf'', ''nan''})"

text \<open>
  The throughput of benchmark \<open>k\<close> in a run from \<open>w\<close>, the numeric fields of the five
  rows of the run, and the report as a template filled with five pairs of numeric fields.
\<close>

definition throughput :: "world \<Rightarrow> nat \<Rightarrow> pyfloat" where
  "throughput w k = fdiv (Fin (of_int (snd (suite ! k)))) (sample w k)"

definition numbers :: "world \<Rightarrow> (string \<times> string) list" where
  "numbers w =
     map (\<lambda>k. (format_f True 2 (throughput w k), format_f False 4 (sample w k))) [0..<5]"

definition report_template :: "(string \<times> string) list \<Rightarrow> string list" where
  "report_template nums =
     [title_line, rule_line, header_line, rule_line] @
     map (\<lambda>((name, n), (a, b)). data_row name a b) (zip suite nums) @
     [rule_line, '''']"

section \<open>Properties of the loops\<close>

declare str_nat.simps [simp del] group3.simps [simp del]

declare bench_int_loop.simps [simp del] bench_double_loop.simps [simp del]
  bench_string_loop.simps [simp del] bench_array_loop.simps [simp del]
  bench_struct_loop.simps [simp del]

text \<open>
  For each loop: one unfolding while the guard holds, none when it fails; the loop is the
  body iterated as many times as the counter is below the limit; and the standard
  semantics of a while loop (\<open>while_option\<close>, which is \<open>None\<close> for a loop that does
  not terminate) returns what the recursion returns.
\<close>

lemma bench_int_loop_step:
  "i < limit \<Longrightarrow> bench_int_loop limit i = bench_int_loop limit (bench_int_body i)"
  by (subst bench_int_loop.simps) simp

lemma bench_int_loop_stop: "\<not> i < limit \<Longrightarrow> bench_int_loop limit i = i"
  by (subst bench_int_loop.simps) simp

lemma bench_int_loop_funpow:
  "bench_int_loop limit i = (bench_int_body ^^ nat (limit - i)) i"
proof (induction limit i rule: bench_int_loop.induct)
  case (1 limit i)
  show ?case
  proof (cases "i < limit")
    case True
    then have "nat (limit - i) = Suc (nat (limit - bench_int_body i))"
      by (simp add: bench_int_body_def)
    with True 1 show ?thesis
      by (simp add: bench_int_loop_step funpow_swap1)
  next
    case False
    then show ?thesis by (simp add: bench_int_loop_stop)
  qed
qed

lemma bench_int_body_funpow: "(bench_int_body ^^ n) i = i + int n"
  by (induction n) (simp_all add: bench_int_body_def)

lemma bench_int_while:
  "while_option (\<lambda>i. i < limit) bench_int_body i = Some (bench_int_loop limit i)"
proof (induction limit i rule: bench_int_loop.induct)
  case (1 limit i)
  show ?case
  proof (cases "i < limit")
    case True
    have "while_option (\<lambda>i. i < limit) bench_int_body i =
          while_option (\<lambda>i. i < limit) bench_int_body (bench_int_body i)"
      using True by (subst while_option_unfold) simp
    also have "\<dots> = Some (bench_int_loop limit (bench_int_body i))"
      using 1 [OF True] by simp
    also have "\<dots> = Some (bench_int_loop limit i)"
      using True by (simp only: bench_int_loop_step)
    finally show ?thesis .
  next
    case False
    then show ?thesis
      by (subst while_option_unfold) (simp add: bench_int_loop_stop)
  qed
qed

lemma bench_double_loop_step:
  "i < limit \<Longrightarrow>
   bench_double_loop limit (v, i) = bench_double_loop limit (bench_double_body (v, i))"
  by (subst bench_double_loop.simps) simp

lemma bench_double_loop_stop: "\<not> i < limit \<Longrightarrow> bench_double_loop limit (v, i) = (v, i)"
  by (subst bench_double_loop.simps) simp

lemma bench_double_loop_funpow:
  "bench_double_loop limit (v, i) = (bench_double_body ^^ nat (limit - i)) (v, i)"
proof (induction limit "(v, i)" arbitrary: v i rule: bench_double_loop.induct)
  case (1 limit v i)
  show ?case
  proof (cases "i < limit")
    case True
    then have "nat (limit - i) = Suc (nat (limit - (i + 1)))" by simp
    with True 1 show ?thesis
      by (simp add: bench_double_loop_step funpow_swap1)
  next
    case False
    then show ?thesis by (simp add: bench_double_loop_stop)
  qed
qed

lemma bench_double_while:
  "while_option (\<lambda>(v, i). i < limit) bench_double_body (v, i) =
   Some (bench_double_loop limit (v, i))"
proof (induction limit "(v, i)" arbitrary: v i rule: bench_double_loop.induct)
  case (1 limit v i)
  show ?case
  proof (cases "i < limit")
    case True
    have "while_option (\<lambda>(v, i). i < limit) bench_double_body (v, i) =
          while_option (\<lambda>(v, i). i < limit) bench_double_body (bench_double_body (v, i))"
      using True by (subst while_option_unfold) simp
    also have "\<dots> = Some (bench_double_loop limit (bench_double_body (v, i)))"
      using 1 [OF True] by (simp)
    also have "\<dots> = Some (bench_double_loop limit (v, i))"
      using True by (simp only: bench_double_loop_step)
    finally show ?thesis .
  next
    case False
    then show ?thesis
      by (subst while_option_unfold) (simp add: bench_double_loop_stop)
  qed
qed

lemma bench_double_body_funpow:
  "snd ((bench_double_body ^^ n) (v, i)) = i + int n"
proof (induction n)
  case 0
  show ?case by simp
next
  case (Suc n)
  obtain v' i' where s: "(bench_double_body ^^ n) (v, i) = (v', i')"
    by (cases "(bench_double_body ^^ n) (v, i)")
  with Suc show ?case
    by simp
qed

lemma bench_string_loop_step:
  "i < limit \<Longrightarrow>
   bench_string_loop limit (s, i) = bench_string_loop limit (bench_string_body (s, i))"
  by (subst bench_string_loop.simps) simp

lemma bench_string_loop_stop: "\<not> i < limit \<Longrightarrow> bench_string_loop limit (s, i) = (s, i)"
  by (subst bench_string_loop.simps) simp

lemma bench_string_loop_funpow:
  "bench_string_loop limit (s, i) = (bench_string_body ^^ nat (limit - i)) (s, i)"
proof (induction limit "(s, i)" arbitrary: s i rule: bench_string_loop.induct)
  case (1 limit s i)
  show ?case
  proof (cases "i < limit")
    case True
    then have "nat (limit - i) = Suc (nat (limit - (i + 1)))" by simp
    with True 1 show ?thesis
      by (simp add: bench_string_loop_step funpow_swap1)
  next
    case False
    then show ?thesis by (simp add: bench_string_loop_stop)
  qed
qed

lemma bench_string_while:
  "while_option (\<lambda>(s, i). i < limit) bench_string_body (s, i) =
   Some (bench_string_loop limit (s, i))"
proof (induction limit "(s, i)" arbitrary: s i rule: bench_string_loop.induct)
  case (1 limit s i)
  show ?case
  proof (cases "i < limit")
    case True
    have "while_option (\<lambda>(s, i). i < limit) bench_string_body (s, i) =
          while_option (\<lambda>(s, i). i < limit) bench_string_body (bench_string_body (s, i))"
      using True by (subst while_option_unfold) simp
    also have "\<dots> = Some (bench_string_loop limit (bench_string_body (s, i)))"
      using 1 [OF True] by (simp)
    also have "\<dots> = Some (bench_string_loop limit (s, i))"
      using True by (simp only: bench_string_loop_step)
    finally show ?thesis .
  next
    case False
    then show ?thesis
      by (subst while_option_unfold) (simp add: bench_string_loop_stop)
  qed
qed

lemma bench_string_body_funpow:
  "(bench_string_body ^^ n) (s, i) = (s @ replicate n CHR ''a'', i + int n)"
  by (induction n) (simp_all add: replicate_append_same)

lemma bench_array_loop_step:
  "i < limit \<Longrightarrow>
   bench_array_loop limit (arr, i) = bench_array_loop limit (bench_array_body (arr, i))"
  by (subst bench_array_loop.simps) simp

lemma bench_array_loop_stop: "\<not> i < limit \<Longrightarrow> bench_array_loop limit (arr, i) = (arr, i)"
  by (subst bench_array_loop.simps) simp

lemma bench_array_loop_funpow:
  "bench_array_loop limit (arr, i) = (bench_array_body ^^ nat (limit - i)) (arr, i)"
proof (induction limit "(arr, i)" arbitrary: arr i rule: bench_array_loop.induct)
  case (1 limit arr i)
  show ?case
  proof (cases "i < limit")
    case True
    then have "nat (limit - i) = Suc (nat (limit - (i + 1)))" by simp
    with True 1 show ?thesis
      by (simp add: bench_array_loop_step funpow_swap1)
  next
    case False
    then show ?thesis by (simp add: bench_array_loop_stop)
  qed
qed

lemma bench_array_while:
  "while_option (\<lambda>(arr, i). i < limit) bench_array_body (arr, i) =
   Some (bench_array_loop limit (arr, i))"
proof (induction limit "(arr, i)" arbitrary: arr i rule: bench_array_loop.induct)
  case (1 limit arr i)
  show ?case
  proof (cases "i < limit")
    case True
    have "while_option (\<lambda>(arr, i). i < limit) bench_array_body (arr, i) =
          while_option (\<lambda>(arr, i). i < limit) bench_array_body (bench_array_body (arr, i))"
      using True by (subst while_option_unfold) simp
    also have "\<dots> = Some (bench_array_loop limit (bench_array_body (arr, i)))"
      using 1 [OF True] by (simp)
    also have "\<dots> = Some (bench_array_loop limit (arr, i))"
      using True by (simp only: bench_array_loop_step)
    finally show ?thesis .
  next
    case False
    then show ?thesis
      by (subst while_option_unfold) (simp add: bench_array_loop_stop)
  qed
qed

lemma bench_array_body_funpow:
  "(bench_array_body ^^ n) (arr, i) = (arr @ map (\<lambda>k. i + int k) [0..<n], i + int n)"
  by (induction n) simp_all

lemma bench_struct_loop_step:
  "i < limit \<Longrightarrow>
   bench_struct_loop limit (obj, x, i) = bench_struct_loop limit (bench_struct_body (obj, x, i))"
  by (subst bench_struct_loop.simps) simp

lemma bench_struct_loop_stop: "\<not> i < limit \<Longrightarrow> bench_struct_loop limit (obj, x, i) = (obj, x, i)"
  by (subst bench_struct_loop.simps) simp

lemma bench_struct_loop_funpow:
  "bench_struct_loop limit (obj, x, i) = (bench_struct_body ^^ nat (limit - i)) (obj, x, i)"
proof (induction limit "(obj, x, i)" arbitrary: obj x i rule: bench_struct_loop.induct)
  case (1 limit obj x i)
  show ?case
  proof (cases "i < limit")
    case True
    then have "nat (limit - i) = Suc (nat (limit - (i + 1)))" by simp
    with True 1 show ?thesis
      by (simp add: bench_struct_loop_step funpow_swap1 Let_def)
  next
    case False
    then show ?thesis by (simp add: bench_struct_loop_stop)
  qed
qed

lemma bench_struct_while:
  "while_option (\<lambda>(obj, x, i). i < limit) bench_struct_body (obj, x, i) =
   Some (bench_struct_loop limit (obj, x, i))"
proof (induction limit "(obj, x, i)" arbitrary: obj x i rule: bench_struct_loop.induct)
  case (1 limit obj x i)
  show ?case
  proof (cases "i < limit")
    case True
    have "while_option (\<lambda>(obj, x, i). i < limit) bench_struct_body (obj, x, i) =
          while_option (\<lambda>(obj, x, i). i < limit) bench_struct_body (bench_struct_body (obj, x, i))"
      using True by (subst while_option_unfold) simp
    also have "\<dots> = Some (bench_struct_loop limit (bench_struct_body (obj, x, i)))"
      using 1 [OF True] by (simp add: Let_def)
    also have "\<dots> = Some (bench_struct_loop limit (obj, x, i))"
      using True by (simp only: bench_struct_loop_step)
    finally show ?thesis .
  next
    case False
    then show ?thesis
      by (subst while_option_unfold) (simp add: bench_struct_loop_stop)
  qed
qed

lemma bench_struct_body_funpow:
  "(bench_struct_body ^^ Suc n) (obj, x, i) =
   (obj\<lparr>val := i + int n\<rparr>, Some (i + int n), i + int n + 1)"
  by (induction n) (simp_all add: Let_def)

section \<open>Evaluating the format specifications\<close>

lemma floor_rat_numeral_div:
  "\<lfloor>(numeral a :: rat) / numeral b\<rfloor> = numeral a div numeral b"
  using floor_divide_of_int_eq [of "numeral a" "numeral b", where ?'a = rat] by simp

lemma frac_digits_numeral:
  "frac_digits (numeral k) n = frac_digits (pred_numeral k) (n div 10) @ [digit (n mod 10)]"
  by (simp only: numeral_eq_Suc [of k] frac_digits.simps)

lemma replicate_numeral: "replicate (numeral k) x = x # replicate (pred_numeral k) x"
  by (simp only: numeral_eq_Suc [of k] replicate.simps)

lemmas format_eval = fixed_point_def round_half_even_def Let_def floor_rat_numeral_div
  str_nat.simps group3.simps digit_def frac_digits_numeral


section \<open>Properties of the binary64 arithmetic\<close>

declare bit_length.simps [simp del]

lemma pow2_powi: "pow2 k = 2 powi k"
  by (simp add: pow2_def power_int_def field_simps)

lemma pow2_pos [simp]: "0 < pow2 k"
  by (simp add: pow2_powi zero_less_power_int)

lemma pow2_nonneg [simp]: "0 \<le> pow2 k"
  using pow2_pos [of k] by (simp only: less_imp_le)

lemma pow2_neq_0 [simp]: "pow2 k \<noteq> 0"
  using pow2_pos [of k] by (simp only: less_imp_neq [THEN not_sym] not_False_eq_True)

lemma pow2_not_le_0 [simp]: "\<not> pow2 k \<le> 0"
  by (simp add: not_le)






lemma pow2_strict_mono: "j < k \<Longrightarrow> pow2 j < pow2 k"
  by (simp add: pow2_powi power_int_strict_increasing)




lemma round_half_even_near:
  assumes "0 \<le> x"
  shows "\<bar>of_nat (round_half_even x) - x\<bar> \<le> 1 / 2"
proof -
  define f where "f = \<lfloor>x\<rfloor>"
  have f: "0 \<le> f" "of_int f \<le> x" "x < of_int f + 1"
    using assms unfolding f_def by (simp, linarith, linarith)
  have "round_half_even x =
        nat (if x - of_int f < 1 / 2 then f else if 1 / 2 < x - of_int f then f + 1
             else if even f then f else f + 1)"
    by (simp add: round_half_even_def Let_def f_def)
  with f show ?thesis
    by (auto simp: abs_if)
qed



text \<open>The rounding without the local definitions, and for a non-zero argument.\<close>

lemma b64_unfold:
  "b64 x =
     (if x = 0 then Fin 0
      else if pow2 1024 \<le> of_nat (round_half_even (\<bar>x\<bar> / pow2 (max (ilog2 \<bar>x\<bar>) (- 1022) - 52))) * pow2 (max (ilog2 \<bar>x\<bar>) (- 1022) - 52)
        then (if x < 0 then NegInf else PosInf)
      else if of_nat (round_half_even (\<bar>x\<bar> / pow2 (max (ilog2 \<bar>x\<bar>) (- 1022) - 52))) * pow2 (max (ilog2 \<bar>x\<bar>) (- 1022) - 52) = 0
        then (if x < 0 then NegZero else Fin 0)
      else Fin (if x < 0 then - (of_nat (round_half_even (\<bar>x\<bar> / pow2 (max (ilog2 \<bar>x\<bar>) (- 1022) - 52))) * pow2 (max (ilog2 \<bar>x\<bar>) (- 1022) - 52))
                else of_nat (round_half_even (\<bar>x\<bar> / pow2 (max (ilog2 \<bar>x\<bar>) (- 1022) - 52))) * pow2 (max (ilog2 \<bar>x\<bar>) (- 1022) - 52)))"
  by (simp only: b64_def Let_def)

lemma b64_0 [simp]: "b64 0 = Fin 0"
  by (simp add: b64_def)











text \<open>Evaluating the rounding of a number given by numerals.\<close>

lemma ceiling_rat_numeral_div:
  "\<lceil>(numeral a :: rat) / numeral b\<rceil> = - ((- numeral a) div numeral b)"
  using ceiling_divide_eq_div [of "numeral a" "numeral b"]
  by (simp add: ceiling_def)

lemmas b64_numeral = b64_unfold [of "numeral k"] b64_unfold [of "numeral k / numeral l"]
  b64_unfold [of 1] b64_unfold [of "1 / numeral l"] for k l

lemmas b64_eval = b64_numeral ilog2_def pow2_def round_half_even_def Let_def
  floor_rat_numeral_div ceiling_rat_numeral_div bit_length.simps

lemma float_of_int_limits:
  "float_of_int 1000000000 = Inr (Fin 1000000000)"
  "float_of_int 100000000 = Inr (Fin 100000000)"
  "float_of_int 50000 = Inr (Fin 50000)"
  "float_of_int 1000000 = Inr (Fin 1000000)"
  "float_of_int 50000000 = Inr (Fin 50000000)"
  by (simp_all add: float_of_int_def b64_eval)

lemma float_1_1_eq: "float_1_1 = Fin (2476979795053773 / 2251799813685248)"
  by (simp add: float_1_1_def b64_eval)

lemmas float_eval = fsub_def fadd_def fdiv_def reading_def b64_eval

lemmas row_eval = row_def data_row_def replicate_numeral format_eval float_eval

section \<open>The benchmarks and the run\<close>

lemma print_result_eq:
  "print_result name ops sec w =
   w\<lparr>out := out w @ [data_row name (format_f True 2 ops) (format_f False 4 sec)]\<rparr>"
  by (simp add: print_result_def print_def data_row_def ljust_def rjust_def Let_def)

lemma print_header_eq:
  "print_header w = w\<lparr>out := out w @ [rule_line, header_line, rule_line]\<rparr>"
  by (simp add: print_header_def print_def rule_line_def header_line_def ljust_def rjust_def
      eval_nat_numeral)

lemma bench_int_eq:
  "bench_int w =
     (if is_zero (elapsed w) then Inl (ZeroDivisionError, w\<lparr>ticks := ticks w + 2\<rparr>)
      else Inr (print_result ''Integer Add'' (fdiv (Fin 1000000000) (elapsed w)) (elapsed w)
                  (w\<lparr>ticks := ticks w + 2\<rparr>)))"
  by (simp add: bench_int_def bench_int_exec_def time_time_def truediv_def elapsed_def
      reading_def float_of_int_limits Let_def split: prod.split)

lemma bench_double_eq:
  "bench_double w =
     (if is_zero (elapsed w) then Inl (ZeroDivisionError, w\<lparr>ticks := ticks w + 2\<rparr>)
      else Inr (print_result ''Double Arith'' (fdiv (Fin 100000000) (elapsed w)) (elapsed w)
                  (w\<lparr>ticks := ticks w + 2\<rparr>)))"
  by (simp add: bench_double_def bench_double_exec_def time_time_def truediv_def elapsed_def
      reading_def float_of_int_limits Let_def split: prod.split)

lemma bench_string_eq:
  "bench_string w =
     (if is_zero (elapsed w) then Inl (ZeroDivisionError, w\<lparr>ticks := ticks w + 2\<rparr>)
      else Inr (print_result ''String Concat'' (fdiv (Fin 50000) (elapsed w)) (elapsed w)
                  (w\<lparr>ticks := ticks w + 2\<rparr>)))"
  by (simp add: bench_string_def bench_string_exec_def time_time_def truediv_def elapsed_def
      reading_def float_of_int_limits Let_def split: prod.split)

lemma bench_array_eq:
  "bench_array w =
     (if is_zero (elapsed w) then Inl (ZeroDivisionError, w\<lparr>ticks := ticks w + 2\<rparr>)
      else Inr (print_result ''Array Push'' (fdiv (Fin 1000000) (elapsed w)) (elapsed w)
                  (w\<lparr>ticks := ticks w + 2\<rparr>)))"
  by (simp add: bench_array_def bench_array_exec_def time_time_def truediv_def elapsed_def
      reading_def float_of_int_limits Let_def split: prod.split)

lemma bench_struct_eq:
  "bench_struct w =
     (if is_zero (elapsed w) then Inl (ZeroDivisionError, w\<lparr>ticks := ticks w + 2\<rparr>)
      else Inr (print_result ''Struct Access'' (fdiv (Fin 50000000) (elapsed w)) (elapsed w)
                  (w\<lparr>ticks := ticks w + 2\<rparr>)))"
  by (simp add: bench_struct_def bench_struct_exec_def time_time_def truediv_def elapsed_def
      reading_def float_of_int_limits Let_def split: prod.split)

lemma rows_numeral:
  "rows w 0 = []"
  "rows w 1 = [row ''Integer Add'' 1000000000 (sample w 0)]"
  "rows w 2 = [row ''Integer Add'' 1000000000 (sample w 0),
               row ''Double Arith'' 100000000 (sample w 1)]"
  "rows w 3 = [row ''Integer Add'' 1000000000 (sample w 0),
               row ''Double Arith'' 100000000 (sample w 1),
               row ''String Concat'' 50000 (sample w 2)]"
  "rows w 4 = [row ''Integer Add'' 1000000000 (sample w 0),
               row ''Double Arith'' 100000000 (sample w 1),
               row ''String Concat'' 50000 (sample w 2),
               row ''Array Push'' 1000000 (sample w 3)]"
  "rows w 5 = [row ''Integer Add'' 1000000000 (sample w 0),
               row ''Double Arith'' 100000000 (sample w 1),
               row ''String Concat'' 50000 (sample w 2),
               row ''Array Push'' 1000000 (sample w 3),
               row ''Struct Access'' 50000000 (sample w 4)]"
  by (simp_all add: rows_def upt_rec suite_def eval_nat_numeral)

lemma rows_Suc:
  "rows w (Suc k) = rows w k @ [row (fst (suite ! k)) (snd (suite ! k)) (sample w k)]"
  by (simp add: rows_def)

lemma elapsed_at_bench: "elapsed (at_bench w k ls) = sample w k"
  by (simp add: elapsed_def sample_def at_bench_def reading_def)

lemma at_bench_step:
  "(at_bench w k ls)\<lparr>ticks := ticks (at_bench w k ls) + 2\<rparr> = at_bench w (k + 1) ls"
  "(at_bench w k ls)\<lparr>out := out (at_bench w k ls) @ [l]\<rparr> = at_bench w k (ls @ [l])"
  by (simp_all add: at_bench_def)

lemma print_at_bench: "print l (at_bench w k ls) = at_bench w k (ls @ [l])"
  by (simp add: print_def at_bench_def)

lemma header_at_bench: "print_header (print title_line w) = at_bench w 0 []"
  by (simp add: print_header_eq print_def at_bench_def report_head_def)

lemma bench_int_at:
  "bench_int (at_bench w k ls) =
     (if is_zero (sample w k) then Inl (ZeroDivisionError, at_bench w (k + 1) ls)
      else Inr (at_bench w (k + 1) (ls @ [row ''Integer Add'' 1000000000 (sample w k)])))"
  by (simp only: bench_int_eq print_result_eq elapsed_at_bench at_bench_step row_def) simp

lemma bench_double_at:
  "bench_double (at_bench w k ls) =
     (if is_zero (sample w k) then Inl (ZeroDivisionError, at_bench w (k + 1) ls)
      else Inr (at_bench w (k + 1) (ls @ [row ''Double Arith'' 100000000 (sample w k)])))"
  by (simp only: bench_double_eq print_result_eq elapsed_at_bench at_bench_step row_def) simp

lemma bench_string_at:
  "bench_string (at_bench w k ls) =
     (if is_zero (sample w k) then Inl (ZeroDivisionError, at_bench w (k + 1) ls)
      else Inr (at_bench w (k + 1) (ls @ [row ''String Concat'' 50000 (sample w k)])))"
  by (simp only: bench_string_eq print_result_eq elapsed_at_bench at_bench_step row_def) simp

lemma bench_array_at:
  "bench_array (at_bench w k ls) =
     (if is_zero (sample w k) then Inl (ZeroDivisionError, at_bench w (k + 1) ls)
      else Inr (at_bench w (k + 1) (ls @ [row ''Array Push'' 1000000 (sample w k)])))"
  by (simp only: bench_array_eq print_result_eq elapsed_at_bench at_bench_step row_def) simp

lemma bench_struct_at:
  "bench_struct (at_bench w k ls) =
     (if is_zero (sample w k) then Inl (ZeroDivisionError, at_bench w (k + 1) ls)
      else Inr (at_bench w (k + 1) (ls @ [row ''Struct Access'' 50000000 (sample w k)])))"
  by (simp only: bench_struct_eq print_result_eq elapsed_at_bench at_bench_step row_def) simp

lemma main_eq:
  "main w =
     (if is_zero (sample w 0) then stopped w 0
      else if is_zero (sample w 1) then stopped w 1
      else if is_zero (sample w 2) then stopped w 2
      else if is_zero (sample w 3) then stopped w 3
      else if is_zero (sample w 4) then stopped w 4
      else finished w)"
proof -
  have "main w =
     (case bench_int (at_bench w 0 []) of Inl e \<Rightarrow> Inl e | Inr w3 \<Rightarrow>
      case bench_double w3 of Inl e \<Rightarrow> Inl e | Inr w4 \<Rightarrow>
      case bench_string w4 of Inl e \<Rightarrow> Inl e | Inr w5 \<Rightarrow>
      case bench_array w5 of Inl e \<Rightarrow> Inl e | Inr w6 \<Rightarrow>
      case bench_struct w6 of Inl e \<Rightarrow> Inl e | Inr w7 \<Rightarrow>
        Inr (print '''' (print rule_line w7)))"
    by (simp only: main_def Let_def header_at_bench [symmetric] title_line_def rule_line_def)
  also have "\<dots> =
     (if is_zero (sample w 0) then stopped w 0
      else if is_zero (sample w 1) then stopped w 1
      else if is_zero (sample w 2) then stopped w 2
      else if is_zero (sample w 3) then stopped w 3
      else if is_zero (sample w 4) then stopped w 4
      else finished w)"
    by (simp add: bench_int_at bench_double_at bench_string_at bench_array_at bench_struct_at
        print_at_bench stopped_def finished_def rows_numeral(1) rows_Suc suite_def
        eval_nat_numeral)
  finally show ?thesis .
qed

section \<open>The claims\<close>

subsection \<open>Throughput\<close>





subsection \<open>Iteration counts and operations\<close>

lemma bench_timed:
  "bench_int = timed ''Integer Add'' 1000000000"
  "bench_double = timed ''Double Arith'' 100000000"
  "bench_string = timed ''String Concat'' 50000"
  "bench_array = timed ''Array Push'' 1000000"
  "bench_struct = timed ''Struct Access'' 50000000"
  by (rule ext, simp add: timed_def bench_int_eq bench_double_eq bench_string_eq
      bench_array_eq bench_struct_eq)+

lemma bench_exec_locals:
  "fst (bench_int_exec w) = bench_int_loop 1000000000 0"
  "fst (bench_double_exec w) = bench_double_loop 100000000 (Fin 0, 0)"
  "fst (bench_string_exec w) = bench_string_loop 50000 ('''', 0)"
  "fst (bench_array_exec w) = bench_array_loop 1000000 ([], 0)"
  "fst (bench_struct_exec w) = bench_struct_loop 50000000 (Obj_init, None, 0)"
  by (simp_all add: bench_int_exec_def bench_double_exec_def bench_string_exec_def
      bench_array_exec_def bench_struct_exec_def Let_def split: prod.split)

lemma bench_struct_counter: "snd (snd ((bench_struct_body ^^ n) (obj, x, i))) = i + int n"
proof (induction n)
  case 0
  show ?case by simp
next
  case (Suc n)
  obtain obj' x' i' where "(bench_struct_body ^^ n) (obj, x, i) = (obj', x', i')"
    by (cases "(bench_struct_body ^^ n) (obj, x, i)")
  with Suc show ?case
    by (simp add: Let_def)
qed

lemma bench_iterations:
  "(fst (bench_int_exec w) = (bench_int_body ^^ k) 0) = (k = 1000000000)"
  "(fst (bench_double_exec w) = (bench_double_body ^^ k) (Fin 0, 0)) = (k = 100000000)"
  "(fst (bench_string_exec w) = (bench_string_body ^^ k) ('''', 0)) = (k = 50000)"
  "(fst (bench_array_exec w) = (bench_array_body ^^ k) ([], 0)) = (k = 1000000)"
  "(fst (bench_struct_exec w) = (bench_struct_body ^^ k) (Obj_init, None, 0)) = (k = 50000000)"
proof -
  show "(fst (bench_int_exec w) = (bench_int_body ^^ k) 0) = (k = 1000000000)"
    by (simp only: bench_exec_locals bench_int_loop_funpow bench_int_body_funpow) auto
  show "(fst (bench_double_exec w) = (bench_double_body ^^ k) (Fin 0, 0)) = (k = 100000000)"
  proof
    assume "fst (bench_double_exec w) = (bench_double_body ^^ k) (Fin 0, 0)"
    then have "snd (fst (bench_double_exec w)) = snd ((bench_double_body ^^ k) (Fin 0, 0))"
      by simp
    then show "k = 100000000"
      by (simp add: bench_exec_locals bench_double_loop_funpow bench_double_body_funpow)
  next
    assume "k = 100000000"
    then show "fst (bench_double_exec w) = (bench_double_body ^^ k) (Fin 0, 0)"
      by (simp add: bench_exec_locals bench_double_loop_funpow)
  qed
  show "(fst (bench_string_exec w) = (bench_string_body ^^ k) ('''', 0)) = (k = 50000)"
  proof
    assume "fst (bench_string_exec w) = (bench_string_body ^^ k) ('''', 0)"
    then have "snd (fst (bench_string_exec w)) = snd ((bench_string_body ^^ k) ('''', 0))"
      by simp
    then show "k = 50000"
      by (simp add: bench_exec_locals bench_string_loop_funpow bench_string_body_funpow)
  next
    assume "k = 50000"
    then show "fst (bench_string_exec w) = (bench_string_body ^^ k) ('''', 0)"
      by (simp add: bench_exec_locals bench_string_loop_funpow)
  qed
  show "(fst (bench_array_exec w) = (bench_array_body ^^ k) ([], 0)) = (k = 1000000)"
  proof
    assume "fst (bench_array_exec w) = (bench_array_body ^^ k) ([], 0)"
    then have "snd (fst (bench_array_exec w)) = snd ((bench_array_body ^^ k) ([], 0))"
      by simp
    then show "k = 1000000"
      by (simp add: bench_exec_locals bench_array_loop_funpow bench_array_body_funpow)
  next
    assume "k = 1000000"
    then show "fst (bench_array_exec w) = (bench_array_body ^^ k) ([], 0)"
      by (simp add: bench_exec_locals bench_array_loop_funpow)
  qed
  show "(fst (bench_struct_exec w) = (bench_struct_body ^^ k) (Obj_init, None, 0)) =
        (k = 50000000)"
  proof
    assume "fst (bench_struct_exec w) = (bench_struct_body ^^ k) (Obj_init, None, 0)"
    then have "snd (snd (fst (bench_struct_exec w))) =
               snd (snd ((bench_struct_body ^^ k) (Obj_init, None, 0)))"
      by simp
    then show "k = 50000000"
      by (simp add: bench_exec_locals bench_struct_loop_funpow bench_struct_counter)
  next
    assume "k = 50000000"
    then show "fst (bench_struct_exec w) = (bench_struct_body ^^ k) (Obj_init, None, 0)"
      by (simp add: bench_exec_locals bench_struct_loop_funpow)
  qed
qed

lemma bench_double_five: "(bench_double_body ^^ 5) (Fin 0, 0) = (Fin (11 / 2), 5)"
proof -
  have 1: "bench_double_body (Fin 0, 0) = (Fin (2476979795053773 / 2251799813685248), 1)"
    by (simp add: float_1_1_eq fadd_def b64_eval)
  have 2: "bench_double_body (Fin (2476979795053773 / 2251799813685248), 1) =
           (Fin (2476979795053773 / 1125899906842624), 2)"
    by (simp add: float_1_1_eq fadd_def b64_eval)
  have 3: "bench_double_body (Fin (2476979795053773 / 1125899906842624), 2) =
           (Fin (7430939385161319 / 2251799813685248), 3)"
    by (simp add: float_1_1_eq fadd_def b64_eval)
  have 4: "bench_double_body (Fin (7430939385161319 / 2251799813685248), 3) =
           (Fin (2476979795053773 / 562949953421312), 4)"
    by (simp add: float_1_1_eq fadd_def b64_eval)
  have 5: "bench_double_body (Fin (2476979795053773 / 562949953421312), 4) = (Fin (11 / 2), 5)"
    by (simp add: float_1_1_eq fadd_def b64_eval)
  have "(5::nat) = Suc (Suc (Suc (Suc (Suc 0))))"
    by simp
  then show ?thesis
    by (simp only: funpow.simps o_apply id_apply 1 2 3 4 5)
qed

text \<open>
  Claim C6. The five benchmarks use the iteration counts and the operations of the
  table. \<open>fst (bench_x_exec w)\<close> is what the local variables of the loop are when the
  benchmark function is left, in whatever world \<open>w\<close> it is called: they are the initial
  locals after \<open>k\<close> executions of the loop body exactly when \<open>k\<close> is the count of the
  table, and the loop index is then that count. The body is the operation of the table
  followed by the increment of the loop index; for Double Arith the operation is the
  float addition of the float nearest to \<open>1.1\<close>, which rounds every sum (after five
  iterations the accumulator is \<open>5.5\<close>, not five times that float). What the caller gets
  from the function is the outcome of the timing probe \<open>timed\<close> with the label and the
  count of the table: two clock readings, then the row with the quotient of the count by
  the elapsed time, or the division error.
\<close>

theorem benchmarks_follow_table:
  "(\<forall>k. (fst (bench_int_exec w) = (bench_int_body ^^ k) 0) = (k = 1000000000)) \<and>
   fst (bench_int_exec w) = 1000000000 \<and>
   (\<forall>i. bench_int_body i = i + 1) \<and>
   bench_int w = snd (bench_int_exec w) \<and>
   bench_int = timed ''Integer Add'' 1000000000 \<and>
   (\<forall>k. (fst (bench_double_exec w) = (bench_double_body ^^ k) (Fin 0, 0)) = (k = 100000000)) \<and>
   snd (fst (bench_double_exec w)) = 100000000 \<and>
   (\<forall>v i. bench_double_body (v, i) = (fadd v float_1_1, i + 1)) \<and>
   float_1_1 = b64 (11 / 10) \<and>
   float_1_1 = Fin (2476979795053773 / 2251799813685248) \<and>
   (bench_double_body ^^ 5) (Fin 0, 0) = (Fin (11 / 2), 5) \<and>
   bench_double w = snd (bench_double_exec w) \<and>
   bench_double = timed ''Double Arith'' 100000000 \<and>
   (\<forall>k. (fst (bench_string_exec w) = (bench_string_body ^^ k) ('''', 0)) = (k = 50000)) \<and>
   snd (fst (bench_string_exec w)) = 50000 \<and>
   (\<forall>s i. bench_string_body (s, i) = (s @ ''a'', i + 1)) \<and>
   bench_string w = snd (bench_string_exec w) \<and>
   bench_string = timed ''String Concat'' 50000 \<and>
   (\<forall>k. (fst (bench_array_exec w) = (bench_array_body ^^ k) ([], 0)) = (k = 1000000)) \<and>
   snd (fst (bench_array_exec w)) = 1000000 \<and>
   (\<forall>arr i. bench_array_body (arr, i) = (arr @ [i], i + 1)) \<and>
   bench_array w = snd (bench_array_exec w) \<and>
   bench_array = timed ''Array Push'' 1000000 \<and>
   (\<forall>k. (fst (bench_struct_exec w) = (bench_struct_body ^^ k) (Obj_init, None, 0)) =
        (k = 50000000)) \<and>
   snd (snd (fst (bench_struct_exec w))) = 50000000 \<and>
   (\<forall>obj x i. bench_struct_body (obj, x, i) = (obj\<lparr>val := i\<rparr>, Some (val (obj\<lparr>val := i\<rparr>)), i + 1)) \<and>
   bench_struct w = snd (bench_struct_exec w) \<and>
   bench_struct = timed ''Struct Access'' 50000000"
proof -
  have "fst (bench_int_exec w) = 1000000000"
    by (simp add: bench_exec_locals bench_int_loop_funpow bench_int_body_funpow)
  moreover have "snd (fst (bench_double_exec w)) = 100000000"
    by (simp add: bench_exec_locals bench_double_loop_funpow bench_double_body_funpow)
  moreover have "snd (fst (bench_string_exec w)) = 50000"
    by (simp add: bench_exec_locals bench_string_loop_funpow bench_string_body_funpow)
  moreover have "snd (fst (bench_array_exec w)) = 1000000"
    by (simp add: bench_exec_locals bench_array_loop_funpow bench_array_body_funpow)
  moreover have "snd (snd (fst (bench_struct_exec w))) = 50000000"
    by (simp add: bench_exec_locals bench_struct_loop_funpow bench_struct_counter)
  moreover have "bench_struct_body (obj, x, i) =
      (obj\<lparr>val := i\<rparr>, Some (val (obj\<lparr>val := i\<rparr>)), i + 1)" for obj x i
    by (simp add: Let_def)
  moreover note bench_iterations [of w] bench_timed bench_double_five float_1_1_eq
  ultimately show ?thesis
    by (simp add: bench_int_body_def bench_int_def bench_double_def bench_string_def
        bench_array_def bench_struct_def float_1_1_def [symmetric])
qed

subsection \<open>The object of the struct benchmark\<close>



subsection \<open>What the array and the string loops build\<close>



subsection \<open>Termination\<close>

text \<open>
  Claim C10. Every benchmark's loop terminates. \<open>while_option b c s\<close> is the standard
  semantics of \<^verbatim>\<open>while b: c\<close> started in \<open>s\<close>: it is \<open>None\<close> when the loop runs forever and
  \<open>Some\<close> of the final state otherwise. For each of the five loops, with the guard
  \<^verbatim>\<open>i < limit\<close>, the body of the source and the counter started at \<open>0\<close>, it is \<open>Some\<close> of
  the state that the recursive loop function returns, and in that state the counter is
  exactly the limit; each body increases the counter by exactly \<open>1\<close>. The benchmark
  functions and the run are total functions around these loops: the run ends either
  finished or stopped by the division error of one of the five benchmarks.
\<close>

theorem loops_terminate:
  "while_option (\<lambda>i. i < 1000000000) bench_int_body 0 = Some (bench_int_loop 1000000000 0) \<and>
   bench_int_loop 1000000000 0 = 1000000000 \<and>
   while_option (\<lambda>(v, i). i < 100000000) bench_double_body (Fin 0, 0) =
     Some (bench_double_loop 100000000 (Fin 0, 0)) \<and>
   snd (bench_double_loop 100000000 (Fin 0, 0)) = 100000000 \<and>
   while_option (\<lambda>(s, i). i < 50000) bench_string_body ('''', 0) =
     Some (bench_string_loop 50000 ('''', 0)) \<and>
   snd (bench_string_loop 50000 ('''', 0)) = 50000 \<and>
   while_option (\<lambda>(arr, i). i < 1000000) bench_array_body ([], 0) =
     Some (bench_array_loop 1000000 ([], 0)) \<and>
   snd (bench_array_loop 1000000 ([], 0)) = 1000000 \<and>
   while_option (\<lambda>(obj, x, i). i < 50000000) bench_struct_body (Obj_init, None, 0) =
     Some (bench_struct_loop 50000000 (Obj_init, None, 0)) \<and>
   snd (snd (bench_struct_loop 50000000 (Obj_init, None, 0))) = 50000000 \<and>
   (\<forall>i. bench_int_body i = i + 1) \<and>
   (\<forall>v i. snd (bench_double_body (v, i)) = i + 1) \<and>
   (\<forall>s i. snd (bench_string_body (s, i)) = i + 1) \<and>
   (\<forall>arr i. snd (bench_array_body (arr, i)) = i + 1) \<and>
   (\<forall>obj x i. snd (snd (bench_struct_body (obj, x, i))) = i + 1) \<and>
   (\<forall>w. main w \<in> {stopped w 0, stopped w 1, stopped w 2, stopped w 3, stopped w 4, finished w})"
proof -
  have "bench_int_loop 1000000000 0 = 1000000000"
    by (simp add: bench_int_loop_funpow bench_int_body_funpow)
  moreover have "snd (bench_double_loop 100000000 (Fin 0, 0)) = 100000000"
    by (simp add: bench_double_loop_funpow bench_double_body_funpow)
  moreover have "snd (bench_string_loop 50000 ('''', 0)) = 50000"
    by (simp add: bench_string_loop_funpow bench_string_body_funpow)
  moreover have "snd (bench_array_loop 1000000 ([], 0)) = 1000000"
    by (simp add: bench_array_loop_funpow bench_array_body_funpow)
  moreover have "(50000000::nat) = Suc 49999999"
    by simp
  then have "snd (snd (bench_struct_loop 50000000 (Obj_init, None, 0))) = 50000000"
    by (simp only: bench_struct_loop_funpow bench_struct_body_funpow diff_zero nat_numeral snd_conv)
  moreover have "main w \<in> {stopped w 0, stopped w 1, stopped w 2, stopped w 3, stopped w 4, finished w}"
    for w
    by (simp add: main_eq)
  ultimately show ?thesis
    by (simp add: bench_int_while bench_double_while bench_string_while bench_array_while
        bench_struct_while bench_int_body_def Let_def)
qed

section \<open>The report\<close>

subsection \<open>Labels and columns\<close>

lemma strip_space_Cons [simp]: "strip (CHR '' '' # s) = strip s"
  by (simp add: strip_def)

lemma strip_append_spaces: "strip (s @ replicate k CHR '' '') = strip s"
proof (cases "\<forall>c\<in>set s. c = CHR '' ''")
  case True
  then have a: "dropWhile (\<lambda>c. c = CHR '' '') (s @ replicate k CHR '' '') = []"
    by (simp add: dropWhile_eq_Nil_conv)
  from True have b: "dropWhile (\<lambda>c. c = CHR '' '') s = []"
    by (simp add: dropWhile_eq_Nil_conv)
  show ?thesis
    unfolding strip_def a b ..
next
  case False
  then have "dropWhile (\<lambda>c. c = CHR '' '') (s @ replicate k CHR '' '') =
             dropWhile (\<lambda>c. c = CHR '' '') s @ replicate k CHR '' ''"
    by (auto simp: dropWhile_append)
  moreover have "dropWhile (\<lambda>c. c = CHR '' '') (replicate k CHR '' '' @ t) =
                 dropWhile (\<lambda>c. c = CHR '' '') t" for t
    by (rule dropWhile_append2) simp
  ultimately show ?thesis
    by (simp add: strip_def)
qed

lemma strip_append_space [simp]: "strip (s @ '' '') = strip s"
  using strip_append_spaces [of s 1] by simp

lemma label_data_row:
  assumes "CHR ''|'' \<notin> set name"
  shows "label (data_row name a b) = strip name"
proof -
  let ?pre = "''  '' @ name @ replicate (15 - length name) CHR '' '' @ '' ''"
  let ?post = "'' '' @ replicate (15 - length a) CHR '' '' @ a @ '' OPS/sec | '' @ b @ ''s''"
  have "data_row name a b = ?pre @ CHR ''|'' # ?post"
    by (simp add: data_row_def)
  moreover have "takeWhile (\<lambda>c. c \<noteq> CHR ''|'') (?pre @ CHR ''|'' # ?post) = ?pre"
    using assms by (subst takeWhile_append2) auto
  moreover have "strip ?pre = strip name"
    using strip_append_space [of "''  '' @ name @ replicate (15 - length name) CHR '' ''"]
      strip_append_spaces [of "name" "15 - length name"]
    by simp
  ultimately show ?thesis
    by (simp add: label_def)
qed

lemma label_row:
  "label (row ''Integer Add'' n s) = ''Integer Add''"
  "label (row ''Double Arith'' n s) = ''Double Arith''"
  "label (row ''String Concat'' n s) = ''String Concat''"
  "label (row ''Array Push'' n s) = ''Array Push''"
  "label (row ''Struct Access'' n s) = ''Struct Access''"
  by (simp_all add: row_def label_data_row) (simp_all add: strip_def)

lemma columns_header: "columns header_line = [''Benchmark'', ''Performance'', ''Time'']"
  by (simp add: columns_def header_line_def strip_def)

lemma length_rows [simp]: "length (rows w k) = k"
  by (simp add: rows_def)

lemma labels_rows:
  "map label (rows w 5) =
   [''Integer Add'', ''Double Arith'', ''String Concat'', ''Array Push'', ''Struct Access'']"
  by (simp add: rows_numeral label_row)

lemmas rows_eval = rows_numeral rows_numeral(2) [unfolded One_nat_def]

lemma bench_steps:
  "bench_int (at_bench w 0 ls) =
     (if is_zero (sample w 0) then Inl (ZeroDivisionError, at_bench w 1 ls)
      else Inr (at_bench w 1 (ls @ [row ''Integer Add'' 1000000000 (sample w 0)])))"
  "bench_double (at_bench w 1 ls) =
     (if is_zero (sample w 1) then Inl (ZeroDivisionError, at_bench w 2 ls)
      else Inr (at_bench w 2 (ls @ [row ''Double Arith'' 100000000 (sample w 1)])))"
  "bench_string (at_bench w 2 ls) =
     (if is_zero (sample w 2) then Inl (ZeroDivisionError, at_bench w 3 ls)
      else Inr (at_bench w 3 (ls @ [row ''String Concat'' 50000 (sample w 2)])))"
  "bench_array (at_bench w 3 ls) =
     (if is_zero (sample w 3) then Inl (ZeroDivisionError, at_bench w 4 ls)
      else Inr (at_bench w 4 (ls @ [row ''Array Push'' 1000000 (sample w 3)])))"
  "bench_struct (at_bench w 4 ls) =
     (if is_zero (sample w 4) then Inl (ZeroDivisionError, at_bench w 5 ls)
      else Inr (at_bench w 5 (ls @ [row ''Struct Access'' 50000000 (sample w 4)])))"
proof -
  have n: "0 + 1 = (1::nat)" "1 + 1 = (2::nat)" "2 + 1 = (3::nat)" "3 + 1 = (4::nat)"
    "4 + 1 = (5::nat)"
    by simp_all
  show "bench_int (at_bench w 0 ls) =
     (if is_zero (sample w 0) then Inl (ZeroDivisionError, at_bench w 1 ls)
      else Inr (at_bench w 1 (ls @ [row ''Integer Add'' 1000000000 (sample w 0)])))"
    using bench_int_at [of w 0 ls] by (simp only: n)
  show "bench_double (at_bench w 1 ls) =
     (if is_zero (sample w 1) then Inl (ZeroDivisionError, at_bench w 2 ls)
      else Inr (at_bench w 2 (ls @ [row ''Double Arith'' 100000000 (sample w 1)])))"
    using bench_double_at [of w 1 ls] by (simp only: n)
  show "bench_string (at_bench w 2 ls) =
     (if is_zero (sample w 2) then Inl (ZeroDivisionError, at_bench w 3 ls)
      else Inr (at_bench w 3 (ls @ [row ''String Concat'' 50000 (sample w 2)])))"
    using bench_string_at [of w 2 ls] by (simp only: n)
  show "bench_array (at_bench w 3 ls) =
     (if is_zero (sample w 3) then Inl (ZeroDivisionError, at_bench w 4 ls)
      else Inr (at_bench w 4 (ls @ [row ''Array Push'' 1000000 (sample w 3)])))"
    using bench_array_at [of w 3 ls] by (simp only: n)
  show "bench_struct (at_bench w 4 ls) =
     (if is_zero (sample w 4) then Inl (ZeroDivisionError, at_bench w 5 ls)
      else Inr (at_bench w 5 (ls @ [row ''Struct Access'' 50000000 (sample w 4)])))"
    using bench_struct_at [of w 4 ls] by (simp only: n)
qed

lemma report_of_eq:
  "report_of w =
     report_head @
     (if is_zero (sample w 0) then rows w 0
      else if is_zero (sample w 1) then rows w 1
      else if is_zero (sample w 2) then rows w 2
      else if is_zero (sample w 3) then rows w 3
      else if is_zero (sample w 4) then rows w 4
      else rows w 5 @ [rule_line, ''''])"
  by (simp add: report_of_def main_eq stopped_def finished_def at_bench_def)

lemma take_report_of: "take 4 (report_of w) = report_head"
  by (simp add: report_of_eq report_head_def)

lemma all_less_5: "(\<forall>k<5. P k) \<longleftrightarrow> P 0 \<and> P 1 \<and> P 2 \<and> P 3 \<and> P (4::nat)"
proof -
  have "k < 5 \<longleftrightarrow> k = 0 \<or> k = 1 \<or> k = 2 \<or> k = 3 \<or> k = 4" for k :: nat
    by arith
  then show ?thesis
    by auto
qed

subsection \<open>The header\<close>

text \<open>
  Claim C5, as stated, fails: \<^verbatim>\<open>print_header\<close> prints no title line. It prints three
  lines, a rule, the column titles and a rule; the title \<^verbatim>\<open>>>> Python 3 Benchmark Suite <<<\<close>
  is printed by the entry point, before it calls \<^verbatim>\<open>print_header\<close>.
\<close>

theorem print_header_no_title_counterexample:
  "out (print_header (fresh (\<lambda>n. 0))) =
    [''  -------------------------------------------------------------'',
     ''  Benchmark       |     Performance | Time'',
     ''  -------------------------------------------------------------''] \<and>
   ''>>> Python 3 Benchmark Suite <<<'' \<notin> set (out (print_header (fresh (\<lambda>n. 0))))"
  by (simp add: print_header_eq fresh_def rule_line_def header_line_def)

text \<open>
  Claim C5, amended. \<^verbatim>\<open>print_header\<close> takes no input (the world apart) and changes
  nothing but standard output, to which it adds a separator rule, the column-header
  line and a second separator rule. The column-header line is the text
  \<^verbatim>\<open>  Benchmark       |     Performance | Time\<close>: its columns read Benchmark, Performance
  and Time. The lines added are the same on every call. The title line is the first
  line that a run prints, and the three lines of \<^verbatim>\<open>print_header\<close> follow it.
\<close>

theorem print_header_lines:
  "print_header w = w\<lparr>out := out w @ [rule_line, header_line, rule_line]\<rparr> \<and>
   drop (length (out w)) (out (print_header w)) =
     [''  -------------------------------------------------------------'',
      ''  Benchmark       |     Performance | Time'',
      ''  -------------------------------------------------------------''] \<and>
   columns ''  Benchmark       |     Performance | Time'' = [''Benchmark'', ''Performance'', ''Time''] \<and>
   take 1 (report_of w) = [''>>> Python 3 Benchmark Suite <<<''] \<and>
   take 3 (drop 1 (report_of w)) = [''  -------------------------------------------------------------'',
                                    ''  Benchmark       |     Performance | Time'',
                                    ''  -------------------------------------------------------------'']"
proof -
  have "columns ''  Benchmark       |     Performance | Time'' = [''Benchmark'', ''Performance'', ''Time'']"
    using columns_header by (simp only: header_line_def)
  then show ?thesis
    by (simp add: print_header_eq report_of_eq report_head_def rule_line_def header_line_def
        title_line_def)
qed

subsection \<open>A benchmark whose elapsed time reads as zero\<close>

text \<open>
  Claim C1, as stated, fails. The clock below reads \<open>0, 1, 2, 3, 4, 4, 5, 6, ...\<close>: the
  elapsed time of the third benchmark, String Concat, is \<open>0\<close>. Its division raises
  \<^verbatim>\<open>ZeroDivisionError\<close>, which nothing catches: the run ends with the error after the rows
  of Integer Add and Double Arith. Array Push and Struct Access do not run (the clock
  has been read six times), and neither their rows nor the closing rule are printed.
\<close>

theorem zero_elapsed_aborts_counterexample:
  "main (fresh (\<lambda>n. if n < 5 then of_nat n else of_nat n - 1)) =
     Inl (ZeroDivisionError,
          \<lparr>clock = \<lambda>n. if n < 5 then of_nat n else of_nat n - 1, ticks = 6,
           out = [''>>> Python 3 Benchmark Suite <<<'',
                  ''  -------------------------------------------------------------'',
                  ''  Benchmark       |     Performance | Time'',
                  ''  -------------------------------------------------------------'',
                  ''  Integer Add     | 1,000,000,000.00 OPS/sec | 1.0000s'',
                  ''  Double Arith    |  100,000,000.00 OPS/sec | 1.0000s'']\<rparr>)"
proof -
  let ?w = "fresh (\<lambda>n. if n < 5 then of_nat n else of_nat n - 1)"
  have s: "sample ?w 0 = Fin 1" "sample ?w 1 = Fin 1" "sample ?w (Suc 0) = Fin 1"
    "sample ?w 2 = Fin 0"
    by (simp_all add: sample_def fresh_def float_eval)
  have "main ?w = stopped ?w 2"
    by (simp add: main_eq s)
  also have "\<dots> = Inl (ZeroDivisionError,
          \<lparr>clock = \<lambda>n. if n < 5 then of_nat n else of_nat n - 1, ticks = 6,
           out = [''>>> Python 3 Benchmark Suite <<<'',
                  ''  -------------------------------------------------------------'',
                  ''  Benchmark       |     Performance | Time'',
                  ''  -------------------------------------------------------------'',
                  row ''Integer Add'' 1000000000 (Fin 1),
                  row ''Double Arith'' 100000000 (Fin 1)]\<rparr>)"
    by (simp add: stopped_def at_bench_def rows_numeral s report_head_def title_line_def
        rule_line_def header_line_def) (simp add: fresh_def)
  finally show ?thesis
    by (simp add: row_eval)
qed

text \<open>
  Claim C1, amended. If the elapsed time sampled by a benchmark reads as \<open>0\<close>, the
  throughput division raises \<^verbatim>\<open>ZeroDivisionError\<close> and the benchmark prints no row. The
  error is caught nowhere and ends the run: when benchmark \<open>k\<close> (counted from \<open>0\<close>) is
  the first whose elapsed time is \<open>0\<close>, the run ends with the error after \<open>2 * (k + 1)\<close>
  readings of the clock, and the report is the title, the header and the rows of the
  \<open>k\<close> benchmarks before it; no subsequent benchmark runs or prints.
\<close>

theorem zero_elapsed_stops_run:
  assumes "k < 5" and "is_zero (sample w k)" and "\<forall>j<k. \<not> is_zero (sample w j)"
  shows "main w =
           Inl (ZeroDivisionError,
                w\<lparr>ticks := ticks w + 2 * (k + 1),
                  out := out w @ [title_line, rule_line, header_line, rule_line] @ rows w k\<rparr>) \<and>
         report_of w = [title_line, rule_line, header_line, rule_line] @ rows w k \<and>
         length (rows w k) = k \<and>
         (is_zero (elapsed v) \<longrightarrow>
            bench_int v = Inl (ZeroDivisionError, v\<lparr>ticks := ticks v + 2\<rparr>) \<and>
            bench_double v = Inl (ZeroDivisionError, v\<lparr>ticks := ticks v + 2\<rparr>) \<and>
            bench_string v = Inl (ZeroDivisionError, v\<lparr>ticks := ticks v + 2\<rparr>) \<and>
            bench_array v = Inl (ZeroDivisionError, v\<lparr>ticks := ticks v + 2\<rparr>) \<and>
            bench_struct v = Inl (ZeroDivisionError, v\<lparr>ticks := ticks v + 2\<rparr>))"
proof -
  from assms(1) have "k = 0 \<or> k = 1 \<or> k = 2 \<or> k = 3 \<or> k = 4"
    by arith
  moreover have "\<not> is_zero (sample w j)" if "j < k" for j
    using assms(3) that by simp
  ultimately have "main w = stopped w k" and "report_of w = report_head @ rows w k"
    using assms(2) by (auto simp: main_eq report_of_eq)
  then show ?thesis
    by (simp add: stopped_def at_bench_def report_head_def bench_int_eq bench_double_eq
        bench_string_eq bench_array_eq bench_struct_eq)
qed

text \<open>
  The clock reads \<open>0, 1, 2, 2, ...\<close>: the second benchmark, Double Arith, is the first
  with elapsed time \<open>0\<close>, and the run stops after the one row of Integer Add.
\<close>

theorem zero_elapsed_stops_run_witness:
  "(1::nat) < 5 \<and>
   is_zero (sample (fresh (\<lambda>n. if n < 3 then of_nat n else 2)) 1) \<and>
   \<not> is_zero (sample (fresh (\<lambda>n. if n < 3 then of_nat n else 2)) 0) \<and>
   main (fresh (\<lambda>n. if n < 3 then of_nat n else 2)) =
     Inl (ZeroDivisionError,
          \<lparr>clock = \<lambda>n. if n < 3 then of_nat n else 2, ticks = 4,
           out = [''>>> Python 3 Benchmark Suite <<<'',
                  ''  -------------------------------------------------------------'',
                  ''  Benchmark       |     Performance | Time'',
                  ''  -------------------------------------------------------------'',
                  ''  Integer Add     | 1,000,000,000.00 OPS/sec | 1.0000s'']\<rparr>)"
proof -
  let ?w = "fresh (\<lambda>n. if n < 3 then of_nat n else 2)"
  have s: "sample ?w 0 = Fin 1" "sample ?w 1 = Fin 0" "sample ?w (Suc 0) = Fin 0"
    by (simp_all add: sample_def fresh_def float_eval)
  then have "\<forall>j<1. \<not> is_zero (sample ?w j)"
    by simp
  with zero_elapsed_stops_run [of 1 ?w] s
  have "main ?w =
          Inl (ZeroDivisionError,
               ?w\<lparr>ticks := ticks ?w + 2 * (1 + 1),
                  out := out ?w @ [title_line, rule_line, header_line, rule_line] @ rows ?w 1\<rparr>)"
    by simp
  also have "\<dots> = Inl (ZeroDivisionError,
          \<lparr>clock = \<lambda>n. if n < 3 then of_nat n else 2, ticks = 4,
           out = [''>>> Python 3 Benchmark Suite <<<'',
                  ''  -------------------------------------------------------------'',
                  ''  Benchmark       |     Performance | Time'',
                  ''  -------------------------------------------------------------'',
                  row ''Integer Add'' 1000000000 (Fin 1)]\<rparr>)"
    by (simp add: rows_numeral [unfolded One_nat_def] s title_line_def rule_line_def
        header_line_def)
       (simp add: fresh_def)
  finally show ?thesis
    using s by (simp add: row_eval)
qed

subsection \<open>The rows of a report\<close>

text \<open>
  Claim C3, as stated, fails: not every run prints five data rows. On a clock whose
  readings are all equal the first benchmark already divides by zero, and the report
  ends after the header, without a data row.
\<close>

theorem report_without_rows_counterexample:
  "main (fresh (\<lambda>n. 0)) =
     Inl (ZeroDivisionError, \<lparr>clock = \<lambda>n. 0, ticks = 2, out =
       [''>>> Python 3 Benchmark Suite <<<'',
        ''  -------------------------------------------------------------'',
        ''  Benchmark       |     Performance | Time'',
        ''  -------------------------------------------------------------'']\<rparr>) \<and>
   report_of (fresh (\<lambda>n. 0)) = [''>>> Python 3 Benchmark Suite <<<'',
                                        ''  -------------------------------------------------------------'',
                                        ''  Benchmark       |     Performance | Time'',
                                        ''  -------------------------------------------------------------'']"
proof -
  have s: "sample (fresh (\<lambda>n. 0)) 0 = Fin 0"
    by (simp add: sample_def fresh_def float_eval)
  show ?thesis
    by (simp add: main_eq report_of_eq s stopped_def at_bench_def rows_numeral report_head_def
        title_line_def rule_line_def header_line_def)
       (simp add: fresh_def)
qed

text \<open>
  Claim C3, amended. Every run in which no benchmark's elapsed time reads as \<open>0\<close> prints
  a report containing exactly 5 data rows, in the fixed sequential order Integer Add,
  Double Arith, String Concat, Array Push, Struct Access: the report is the title, the
  header, the five rows and the closing rule with an empty line, and each benchmark
  starts in the world that its predecessor has left, with the predecessor's row already
  printed (\<open>at_bench w k ls\<close> is the world after \<open>2 * k\<close> readings of the clock in which
  the title, the header and the lines \<open>ls\<close> have been printed). In every run the report
  starts with the title and the header, whose header row reads Benchmark | Performance |
  Time (each title padded to its column); and when the elapsed time of the first
  benchmark is not \<open>0\<close>, the first data row's label is exactly Integer Add.
\<close>

theorem report_rows_in_order:
  "take 4 (report_of w) = [''>>> Python 3 Benchmark Suite <<<'',
                           ''  -------------------------------------------------------------'',
                           ''  Benchmark       |     Performance | Time'',
                           ''  -------------------------------------------------------------''] \<and>
   columns ''  Benchmark       |     Performance | Time'' = [''Benchmark'', ''Performance'', ''Time''] \<and>
   (\<not> is_zero (sample w 0) \<longrightarrow> label (report_of w ! 4) = ''Integer Add'') \<and>
   ((\<forall>k<5. \<not> is_zero (sample w k)) \<longrightarrow>
      report_of w = [''>>> Python 3 Benchmark Suite <<<'',
                     ''  -------------------------------------------------------------'',
                     ''  Benchmark       |     Performance | Time'',
                     ''  -------------------------------------------------------------''] @ rows w 5 @ [''  -------------------------------------------------------------'',
                     ''''] \<and>
      length (rows w 5) = 5 \<and>
      map label (rows w 5) =
        [''Integer Add'', ''Double Arith'', ''String Concat'', ''Array Push'', ''Struct Access''] \<and>
      print_header (print ''>>> Python 3 Benchmark Suite <<<'' w) = at_bench w 0 (rows w 0) \<and>
      bench_int (at_bench w 0 (rows w 0)) = Inr (at_bench w 1 (rows w 1)) \<and>
      bench_double (at_bench w 1 (rows w 1)) = Inr (at_bench w 2 (rows w 2)) \<and>
      bench_string (at_bench w 2 (rows w 2)) = Inr (at_bench w 3 (rows w 3)) \<and>
      bench_array (at_bench w 3 (rows w 3)) = Inr (at_bench w 4 (rows w 4)) \<and>
      bench_struct (at_bench w 4 (rows w 4)) = Inr (at_bench w 5 (rows w 5)) \<and>
      main w = Inr (print ''''
            (print ''  -------------------------------------------------------------'' (at_bench w 5 (rows w 5)))))"
proof -
  have head: "take 4 (report_of w) = [''>>> Python 3 Benchmark Suite <<<'',
                                      ''  -------------------------------------------------------------'',
                                      ''  Benchmark       |     Performance | Time'',
                                      ''  -------------------------------------------------------------'']"
    by (simp add: take_report_of report_head_def title_line_def rule_line_def header_line_def)
  have cols: "columns ''  Benchmark       |     Performance | Time'' = [''Benchmark'', ''Performance'', ''Time'']"
    using columns_header by (simp only: header_line_def)
  have first: "label (report_of w ! 4) = ''Integer Add''" if "\<not> is_zero (sample w 0)"
  proof -
    from that have "report_of w ! 4 = row ''Integer Add'' 1000000000 (sample w 0)"
      by (simp add: report_of_eq report_head_def rows_eval
          nth_append)
    then show ?thesis
      by (simp add: label_row)
  qed
  have run: "report_of w = [''>>> Python 3 Benchmark Suite <<<'',
                            ''  -------------------------------------------------------------'',
                            ''  Benchmark       |     Performance | Time'',
                            ''  -------------------------------------------------------------''] @ rows w 5 @ [''  -------------------------------------------------------------'',
                            ''''] \<and>
      length (rows w 5) = 5 \<and>
      map label (rows w 5) =
        [''Integer Add'', ''Double Arith'', ''String Concat'', ''Array Push'', ''Struct Access''] \<and>
      print_header (print ''>>> Python 3 Benchmark Suite <<<'' w) = at_bench w 0 (rows w 0) \<and>
      bench_int (at_bench w 0 (rows w 0)) = Inr (at_bench w 1 (rows w 1)) \<and>
      bench_double (at_bench w 1 (rows w 1)) = Inr (at_bench w 2 (rows w 2)) \<and>
      bench_string (at_bench w 2 (rows w 2)) = Inr (at_bench w 3 (rows w 3)) \<and>
      bench_array (at_bench w 3 (rows w 3)) = Inr (at_bench w 4 (rows w 4)) \<and>
      bench_struct (at_bench w 4 (rows w 4)) = Inr (at_bench w 5 (rows w 5)) \<and>
      main w = Inr (print ''''
            (print ''  -------------------------------------------------------------'' (at_bench w 5 (rows w 5))))"
    if "\<forall>k<5. \<not> is_zero (sample w k)"
  proof -
    from that have s: "\<not> is_zero (sample w 0)" "\<not> is_zero (sample w 1)" "\<not> is_zero (sample w 2)"
      "\<not> is_zero (sample w 3)" "\<not> is_zero (sample w 4)"
      by (simp_all add: all_less_5)
    have "report_of w = [''>>> Python 3 Benchmark Suite <<<'',
                         ''  -------------------------------------------------------------'',
                         ''  Benchmark       |     Performance | Time'',
                         ''  -------------------------------------------------------------''] @ rows w 5 @ [''  -------------------------------------------------------------'',
                         '''']"
      using s by (simp add: report_of_eq report_head_def title_line_def rule_line_def
          header_line_def)
    moreover have "print_header (print ''>>> Python 3 Benchmark Suite <<<'' w) = at_bench w 0 (rows w 0)"
      using header_at_bench [of w] by (simp add: rows_eval title_line_def)
    moreover have "bench_int (at_bench w 0 (rows w 0)) = Inr (at_bench w 1 (rows w 1))"
      using s by (simp add: bench_steps rows_numeral del: One_nat_def)
    moreover have "bench_double (at_bench w 1 (rows w 1)) = Inr (at_bench w 2 (rows w 2))"
      using s by (simp add: bench_steps rows_numeral del: One_nat_def)
    moreover have "bench_string (at_bench w 2 (rows w 2)) = Inr (at_bench w 3 (rows w 3))"
      using s by (simp add: bench_steps rows_numeral del: One_nat_def)
    moreover have "bench_array (at_bench w 3 (rows w 3)) = Inr (at_bench w 4 (rows w 4))"
      using s by (simp add: bench_steps rows_numeral del: One_nat_def)
    moreover have "bench_struct (at_bench w 4 (rows w 4)) = Inr (at_bench w 5 (rows w 5))"
      using s by (simp add: bench_steps rows_numeral del: One_nat_def)
    moreover have "main w = Inr (print ''''
          (print ''  -------------------------------------------------------------'' (at_bench w 5 (rows w 5))))"
      using s by (simp add: main_eq finished_def print_at_bench rule_line_def)
    ultimately show ?thesis
      by (simp add: labels_rows)
  qed
  from head cols first run show ?thesis
    by blast
qed

text \<open>
  A clock that advances by a quarter of a second between readings: the whole report.
\<close>

theorem report_rows_in_order_witness:
  "sample (fresh (\<lambda>n. of_nat n / 4)) 0 = Fin (1 / 4) \<and>
   sample (fresh (\<lambda>n. of_nat n / 4)) 1 = Fin (1 / 4) \<and>
   sample (fresh (\<lambda>n. of_nat n / 4)) 2 = Fin (1 / 4) \<and>
   sample (fresh (\<lambda>n. of_nat n / 4)) 3 = Fin (1 / 4) \<and>
   sample (fresh (\<lambda>n. of_nat n / 4)) 4 = Fin (1 / 4) \<and>
   report_of (fresh (\<lambda>n. of_nat n / 4)) =
     [''>>> Python 3 Benchmark Suite <<<'',
      ''  -------------------------------------------------------------'',
      ''  Benchmark       |     Performance | Time'',
      ''  -------------------------------------------------------------'',
      ''  Integer Add     | 4,000,000,000.00 OPS/sec | 0.2500s'',
      ''  Double Arith    |  400,000,000.00 OPS/sec | 0.2500s'',
      ''  String Concat   |      200,000.00 OPS/sec | 0.2500s'',
      ''  Array Push      |    4,000,000.00 OPS/sec | 0.2500s'',
      ''  Struct Access   |  200,000,000.00 OPS/sec | 0.2500s'',
      ''  -------------------------------------------------------------'', ''''] \<and>
   label (report_of (fresh (\<lambda>n. of_nat n / 4)) ! 4) = ''Integer Add''"
proof -
  let ?w = "fresh (\<lambda>n. of_nat n / 4)"
  have s: "sample ?w 0 = Fin (1 / 4)" "sample ?w 1 = Fin (1 / 4)" "sample ?w 2 = Fin (1 / 4)"
    "sample ?w 3 = Fin (1 / 4)" "sample ?w 4 = Fin (1 / 4)" "sample ?w (Suc 0) = Fin (1 / 4)"
    by (simp_all add: sample_def fresh_def float_eval)
  have "\<forall>k<5. \<not> is_zero (sample ?w k)" and "\<not> is_zero (sample ?w 0)"
    by (simp_all add: all_less_5 s del: One_nat_def)
  with report_rows_in_order [of ?w]
  have "report_of ?w = [''>>> Python 3 Benchmark Suite <<<'',
                        ''  -------------------------------------------------------------'',
                        ''  Benchmark       |     Performance | Time'',
                        ''  -------------------------------------------------------------''] @ rows ?w 5 @ [''  -------------------------------------------------------------'',
                        '''']"
    and l: "label (report_of ?w ! 4) = ''Integer Add''"
    by blast+
  then have "report_of ?w =
     [''>>> Python 3 Benchmark Suite <<<'',
      ''  -------------------------------------------------------------'',
      ''  Benchmark       |     Performance | Time'',
      ''  -------------------------------------------------------------'',
      row ''Integer Add'' 1000000000 (Fin (1 / 4)), row ''Double Arith'' 100000000 (Fin (1 / 4)),
      row ''String Concat'' 50000 (Fin (1 / 4)), row ''Array Push'' 1000000 (Fin (1 / 4)),
      row ''Struct Access'' 50000000 (Fin (1 / 4)), ''  -------------------------------------------------------------'', '''']"
    by (simp add: rows_numeral s)
  then have "report_of ?w =
     [''>>> Python 3 Benchmark Suite <<<'',
      ''  -------------------------------------------------------------'',
      ''  Benchmark       |     Performance | Time'',
      ''  -------------------------------------------------------------'',
      ''  Integer Add     | 4,000,000,000.00 OPS/sec | 0.2500s'',
      ''  Double Arith    |  400,000,000.00 OPS/sec | 0.2500s'',
      ''  String Concat   |      200,000.00 OPS/sec | 0.2500s'',
      ''  Array Push      |    4,000,000.00 OPS/sec | 0.2500s'',
      ''  Struct Access   |  200,000,000.00 OPS/sec | 0.2500s'',
      ''  -------------------------------------------------------------'', '''']"
    by (simp add: row_eval)
  with s l show ?thesis
    by simp
qed

section \<open>Decimal text\<close>


lemma is_digit_digit: "d < 10 \<Longrightarrow> is_digit (digit d)"
  unfolding is_digit_def digit_def by (rule nth_mem) simp

lemma digit_value_digit: "d < 10 \<Longrightarrow> digit_value (digit d) = d"
proof -
  assume "d < 10"
  then have "d = 0 \<or> d = 1 \<or> d = 2 \<or> d = 3 \<or> d = 4 \<or> d = 5 \<or> d = 6 \<or> d = 7 \<or> d = 8 \<or> d = 9"
    by arith
  then show ?thesis
    by (auto simp: digit_value_def digit_def)
qed

lemma is_digit_simps [simp]:
  "\<not> is_digit CHR '',''" "\<not> is_digit CHR ''.''" "\<not> is_digit CHR ''-''"
  by (simp_all add: is_digit_def)

lemma str_nat_digits: "list_all is_digit (str_nat n)"
  by (induction n rule: str_nat.induct) (subst str_nat.simps, simp add: is_digit_digit)

lemma str_nat_nonempty: "str_nat n \<noteq> []"
  by (subst str_nat.simps) simp

lemma frac_digits_digits: "list_all is_digit (frac_digits p n)"
  by (induction p arbitrary: n) (simp_all add: is_digit_digit)

lemma length_frac_digits [simp]: "length (frac_digits p n) = p"
  by (induction p arbitrary: n) simp_all

lemma digits_value_snoc: "digits_value (s @ [c]) = 10 * digits_value s + digit_value c"
  by (simp add: digits_value_def)

lemma digits_value_str_nat: "digits_value (str_nat n) = n"
proof (induction n rule: str_nat.induct)
  case (1 n)
  show ?case
  proof (cases "n < 10")
    case True
    then show ?thesis
      by (subst str_nat.simps) (simp add: digits_value_def digit_value_digit)
  next
    case False
    with 1 show ?thesis
      by (subst str_nat.simps) (simp add: digits_value_snoc digit_value_digit)
  qed
qed

lemma digits_value_frac_digits: "digits_value (frac_digits p n) = n mod 10 ^ p"
proof (induction p arbitrary: n)
  case 0
  then show ?case by (simp add: digits_value_def)
next
  case (Suc p)
  have "n mod (10 * 10 ^ p) = 10 * (n div 10 mod 10 ^ p) + n mod 10"
    by (simp add: mod_mult2_eq)
  with Suc show ?case
    by (simp add: digits_value_snoc digit_value_digit)
qed

lemma comma_groups_append:
  "comma_groups a \<Longrightarrow> comma_groups b \<Longrightarrow> comma_groups (a @ b)"
  by (induction a rule: comma_groups.induct) simp_all

lemma comma_groups_head: "comma_groups gs \<Longrightarrow> takeWhile is_digit gs = []"
  by (cases gs rule: comma_groups.cases) simp_all

lemma grouped_digitsI:
  assumes "h \<noteq> []" "length h \<le> 3" "list_all is_digit h" "comma_groups gs"
  shows "grouped_digits (h @ gs)"
proof -
  from assms(3) have "takeWhile is_digit (h @ gs) = h @ takeWhile is_digit gs"
    by (simp add: takeWhile_append2 list_all_iff)
  with assms comma_groups_head [OF assms(4)] show ?thesis
    by (cases h) (simp_all add: grouped_digits_def)
qed

lemma group3_small: "length ds \<le> 3 \<Longrightarrow> group3 ds = ds"
  by (subst group3.simps) simp

lemma group3_large:
  "\<not> length ds \<le> 3 \<Longrightarrow>
   group3 ds = group3 (take (length ds - 3) ds) @ '','' @ drop (length ds - 3) ds"
  by (subst group3.simps) simp

lemma group3_shape:
  assumes "ds \<noteq> []" "list_all is_digit ds"
  shows "\<exists>h gs. group3 ds = h @ gs \<and> h \<noteq> [] \<and> length h \<le> 3 \<and> list_all is_digit h \<and>
                 comma_groups gs"
  using assms
proof (induction ds rule: group3.induct)
  case (1 ds)
  show ?case
  proof (cases "length ds \<le> 3")
    case True
    with 1(2,3) have "group3 ds = ds @ [] \<and> ds \<noteq> [] \<and> length ds \<le> 3 \<and> list_all is_digit ds \<and>
        comma_groups []"
      by (simp add: group3_small)
    then show ?thesis by blast
  next
    case False
    let ?pre = "take (length ds - 3) ds" and ?last = "drop (length ds - 3) ds"
    from False have pre: "?pre \<noteq> []" by auto
    from 1(3) have "list_all is_digit ?pre" and last: "list_all is_digit ?last"
      by (auto simp: list_all_iff dest: in_set_takeD in_set_dropD)
    with 1(1) [OF False pre] obtain h gs where
      h: "group3 ?pre = h @ gs" "h \<noteq> []" "length h \<le> 3" "list_all is_digit h" "comma_groups gs"
      by blast
    from False have "length ?last = 3" by simp
    then obtain x y z where xyz: "?last = [x, y, z]"
      by (cases ?last rule: comma_groups.cases) auto
    with last have "comma_groups ('','' @ ?last)"
      by simp
    with h(5) have "comma_groups (gs @ '','' @ ?last)"
      by (rule comma_groups_append)
    moreover from False h(1) have "group3 ds = h @ (gs @ '','' @ ?last)"
      by (simp add: group3_large)
    ultimately show ?thesis
      using h(2-4) by blast
  qed
qed

lemma grouped_digits_group3:
  "ds \<noteq> [] \<Longrightarrow> list_all is_digit ds \<Longrightarrow> grouped_digits (group3 ds)"
  using group3_shape [of ds] grouped_digitsI by auto

lemma set_group3: "set (group3 ds) \<subseteq> insert CHR '','' (set ds)"
proof (induction ds rule: group3.induct)
  case (1 ds)
  show ?case
  proof (cases "length ds \<le> 3")
    case True
    then show ?thesis by (auto simp: group3_small)
  next
    case False
    with 1 have "set (group3 (take (length ds - 3) ds)) \<subseteq> insert CHR '','' (set ds)"
      by (auto dest: in_set_takeD)
    with False show ?thesis
      by (auto simp: group3_large dest: in_set_dropD)
  qed
qed

lemma filter_group3:
  "CHR '','' \<notin> set ds \<Longrightarrow> filter (\<lambda>c. c \<noteq> CHR '','') (group3 ds) = ds"
proof (induction ds rule: group3.induct)
  case (1 ds)
  show ?case
  proof (cases "length ds \<le> 3")
    case True
    with 1(2) show ?thesis by (auto simp: group3_small filter_id_conv)
  next
    case False
    from 1(2) have a: "CHR '','' \<notin> set (take (length ds - 3) ds)"
      and b: "CHR '','' \<notin> set (drop (length ds - 3) ds)"
      by (auto dest: in_set_takeD in_set_dropD)
    from b have "filter (\<lambda>c. c \<noteq> CHR '','') (drop (length ds - 3) ds) = drop (length ds - 3) ds"
      by (auto simp: filter_id_conv)
    with False 1(1) [OF False a] show ?thesis
      by (simp add: group3_large)
  qed
qed

lemma grouped_digits_head: "grouped_digits s \<Longrightarrow> s \<noteq> [] \<and> is_digit (hd s)"
  by (cases s) (auto simp: grouped_digits_def Let_def split: if_splits)

lemma plain_digits_head: "plain_digits s \<Longrightarrow> s \<noteq> [] \<and> is_digit (hd s)"
  by (cases s) (auto simp: plain_digits_def)

lemma parse_sign:
  assumes "ip \<noteq> []" "is_digit (hd ip)"
  shows "take 1 (ip @ r) \<noteq> ''-''" and "take 1 (''-'' @ ip @ r) = ''-''"
  using assms by (cases ip; auto)+

lemma parse_point:
  assumes "CHR ''.'' \<notin> set ip"
  shows "takeWhile (\<lambda>c. c \<noteq> CHR ''.'') (ip @ CHR ''.'' # fr) = ip"
    and "dropWhile (\<lambda>c. c \<noteq> CHR ''.'') (ip @ CHR ''.'' # fr) = CHR ''.'' # fr"
  using assms by (induction ip) auto

lemma decimal_textI:
  assumes "if comma then grouped_digits ip else plain_digits ip"
    and "CHR ''.'' \<notin> set ip" and "length fr = p" and "list_all is_digit fr"
  shows "decimal_text comma p ((if neg then ''-'' else '''') @ ip @ CHR ''.'' # fr)"
proof -
  from assms(1) have hd: "ip \<noteq> []" "is_digit (hd ip)"
    using grouped_digits_head plain_digits_head by (auto split: if_splits)
  show ?thesis
  proof (cases neg)
    case True
    with parse_sign(2) [OF hd, of "CHR ''.'' # fr"] assms show ?thesis
      by (simp add: decimal_text_def Let_def parse_point)
  next
    case False
    with parse_sign(1) [OF hd, of "CHR ''.'' # fr"] assms show ?thesis
      by (simp add: decimal_text_def Let_def parse_point)
  qed
qed

lemma decimal_valueI:
  assumes "ip \<noteq> []" "is_digit (hd ip)" and "CHR ''.'' \<notin> set ip"
  shows "decimal_value ((if neg then ''-'' else '''') @ ip @ CHR ''.'' # fr) =
         (if neg then - 1 else 1) *
         (of_nat (digits_value (filter (\<lambda>c. c \<noteq> CHR '','') ip)) +
          of_nat (digits_value fr) / 10 ^ length fr)"
proof (cases neg)
  case True
  with parse_sign(2) [OF assms(1,2), of "CHR ''.'' # fr"] assms(3) show ?thesis
    by (simp add: decimal_value_def Let_def parse_point)
next
  case False
  with parse_sign(1) [OF assms(1,2), of "CHR ''.'' # fr"] assms(3) show ?thesis
    by (simp add: decimal_value_def Let_def parse_point)
qed

lemma digits_no_point: "list_all is_digit s \<Longrightarrow> CHR ''.'' \<notin> set s \<and> CHR '','' \<notin> set s"
  by (auto simp: list_all_iff)

lemma group3_no_point: "list_all is_digit ds \<Longrightarrow> CHR ''.'' \<notin> set (group3 ds)"
  using set_group3 [of ds] digits_no_point [of ds] by auto

lemma integer_part:
  fixes n :: nat and comma :: bool
  defines "ip \<equiv> (if comma then group3 (str_nat n) else str_nat n)"
  shows "if comma then grouped_digits ip else plain_digits ip"
    and "CHR ''.'' \<notin> set ip"
    and "filter (\<lambda>c. c \<noteq> CHR '','') ip = str_nat n"
  using str_nat_digits [of n] str_nat_nonempty [of n]
  by (auto simp: ip_def grouped_digits_group3 plain_digits_def group3_no_point filter_group3
      filter_id_conv dest: digits_no_point)

lemma fixed_point_eq:
  "p \<noteq> 0 \<Longrightarrow>
   fixed_point comma p neg m =
     (if neg then ''-'' else '''') @
     (if comma then group3 (str_nat (round_half_even (m * 10 ^ p) div 10 ^ p))
      else str_nat (round_half_even (m * 10 ^ p) div 10 ^ p)) @
     CHR ''.'' # frac_digits p (round_half_even (m * 10 ^ p))"
  by (simp add: fixed_point_def Let_def)

lemma decimal_text_fixed_point:
  assumes "p \<noteq> 0"
  shows "decimal_text comma p (fixed_point comma p neg m)"
proof -
  let ?n = "round_half_even (m * 10 ^ p)"
  let ?ip = "if comma then group3 (str_nat (?n div 10 ^ p)) else str_nat (?n div 10 ^ p)"
  have a: "if comma then grouped_digits ?ip else plain_digits ?ip"
    by (rule integer_part(1))
  have b: "CHR ''.'' \<notin> set ?ip"
    by (rule integer_part(2))
  show ?thesis
    unfolding fixed_point_eq [OF assms]
    by (rule decimal_textI [OF a b]) (simp_all add: frac_digits_digits)
qed

lemma decimal_text_format_f:
  "is_finite x \<Longrightarrow> p \<noteq> 0 \<Longrightarrow> decimal_text comma p (format_f comma p x)"
  by (cases x) (simp_all add: decimal_text_fixed_point)

lemma decimal_value_fixed_point:
  assumes "p \<noteq> 0"
  shows "decimal_value (fixed_point comma p neg m) =
         (if neg then - 1 else 1) * (of_nat (round_half_even (m * 10 ^ p)) / 10 ^ p)"
proof -
  let ?n = "round_half_even (m * 10 ^ p)"
  let ?ip = "if comma then group3 (str_nat (?n div 10 ^ p)) else str_nat (?n div 10 ^ p)"
  have hd: "?ip \<noteq> []" "is_digit (hd ?ip)"
    using integer_part(1) [of comma "?n div 10 ^ p"] grouped_digits_head plain_digits_head
    by (auto split: if_splits)
  have "(of_nat (?n div 10 ^ p) :: rat) + of_nat (?n mod 10 ^ p) / 10 ^ p = of_nat ?n / 10 ^ p"
  proof -
    have "(of_nat ?n :: rat) = of_nat (?n div 10 ^ p * 10 ^ p + ?n mod 10 ^ p)"
      by (simp only: div_mult_mod_eq)
    also have "\<dots> = of_nat (?n div 10 ^ p) * 10 ^ p + of_nat (?n mod 10 ^ p)"
      by (simp only: of_nat_add of_nat_mult of_nat_power of_nat_numeral)
    finally show ?thesis
      by (simp add: field_simps)
  qed
  then show ?thesis
    unfolding fixed_point_eq [OF assms]
    by (simp only: decimal_valueI [OF hd integer_part(2)] integer_part(3) digits_value_str_nat
        digits_value_frac_digits length_frac_digits)
qed

lemma decimal_value_format_f:
  assumes "p \<noteq> 0"
  shows "\<bar>decimal_value (format_f comma p (Fin q)) - q\<bar> \<le> 1 / (2 * 10 ^ p)"
proof -
  let ?n = "round_half_even (\<bar>q\<bar> * 10 ^ p)"
  have "\<bar>of_nat ?n - \<bar>q\<bar> * 10 ^ p\<bar> \<le> 1 / 2"
    by (rule round_half_even_near) simp
  then have "\<bar>of_nat ?n - \<bar>q\<bar> * 10 ^ p\<bar> / 10 ^ p \<le> (1 / 2) / 10 ^ p"
    by (rule divide_right_mono) simp
  moreover have "\<bar>of_nat ?n / 10 ^ p - \<bar>q\<bar>\<bar> = \<bar>(of_nat ?n - \<bar>q\<bar> * 10 ^ p) / 10 ^ p\<bar>"
    by (simp add: diff_divide_distrib)
  moreover have "\<bar>(of_nat ?n - \<bar>q\<bar> * 10 ^ p) / 10 ^ p\<bar> = \<bar>of_nat ?n - \<bar>q\<bar> * 10 ^ p\<bar> / 10 ^ p"
    by (simp only: abs_divide power_abs abs_numeral)
  ultimately have "\<bar>of_nat ?n / 10 ^ p - \<bar>q\<bar>\<bar> \<le> 1 / (2 * 10 ^ p)"
    by simp
  then show ?thesis
    by (simp add: decimal_value_fixed_point [OF assms] abs_if split: if_splits)
qed

section \<open>The rows\<close>

subsection \<open>The row of one benchmark\<close>

text \<open>
  Claim C4, as stated, fails for the floats that are not finite: an infinite throughput
  is rendered as \<^verbatim>\<open>inf\<close>, without separators and without decimal digits.
\<close>

theorem print_result_inf_counterexample:
  "print_result ''x'' PosInf (Fin 1) (fresh (\<lambda>n. 0)) =
     \<lparr>clock = \<lambda>n. 0, ticks = 0,
      out = [''  x               |             inf OPS/sec | 1.0000s'']\<rparr> \<and>
   \<not> decimal_text True 2 (format_f True 2 PosInf)"
proof -
  have "format_f False 4 (Fin 1) = ''1.0000''"
    by (simp add: format_eval)
  then show ?thesis
    by (simp add: print_result_eq data_row_def replicate_numeral fresh_def decimal_text_def
        grouped_digits_def is_digit_def)
qed

text \<open>
  Claim C4, amended. For every name and every finite throughput and elapsed-seconds
  value, \<^verbatim>\<open>print_result\<close> emits exactly one row (and changes nothing else): two spaces, the
  name left-aligned in a field of width 15 (spaces are added after a shorter name), the
  separator \<^verbatim>\<open> | \<close>, the throughput right-aligned in a field of width 15 (spaces are added
  before a shorter text) with grouped thousands and 2 decimal digits, the suffix
  \<^verbatim>\<open> OPS/sec\<close>, the separator \<^verbatim>\<open> | \<close>, the elapsed seconds with exactly 4 decimal digits and
  the suffix \<^verbatim>\<open>s\<close>. The texts denote the values rounded to 2 and to 4 decimals: they are
  within half a unit of the last digit. An infinite or NaN value is rendered as \<^verbatim>\<open>inf\<close>,
  \<^verbatim>\<open>-inf\<close> or \<^verbatim>\<open>nan\<close> in the same field.
\<close>

theorem print_result_row:
  "print_result name ops sec w =
     w\<lparr>out := out w @
        [''  '' @ name @ replicate (15 - length name) CHR '' '' @ '' | '' @
         replicate (15 - length (format_f True 2 ops)) CHR '' '' @ format_f True 2 ops @
         '' OPS/sec | '' @ format_f False 4 sec @ ''s'']\<rparr> \<and>
   (is_finite ops \<longrightarrow> decimal_text True 2 (format_f True 2 ops)) \<and>
   (is_finite sec \<longrightarrow> decimal_text False 4 (format_f False 4 sec)) \<and>
   (\<forall>q. \<bar>decimal_value (format_f True 2 (Fin q)) - q\<bar> \<le> 1 / 200) \<and>
   (\<forall>q. \<bar>decimal_value (format_f False 4 (Fin q)) - q\<bar> \<le> 1 / 20000) \<and>
   format_f True 2 PosInf = ''inf'' \<and> format_f True 2 NegInf = ''-inf'' \<and>
   format_f True 2 NaN = ''nan'' \<and> format_f False 4 PosInf = ''inf'' \<and>
   format_f False 4 NegInf = ''-inf'' \<and> format_f False 4 NaN = ''nan''"
proof -
  have "\<bar>decimal_value (format_f True 2 (Fin q)) - q\<bar> \<le> 1 / 200" for q
    using decimal_value_format_f [of 2 True q] by simp
  moreover have "\<bar>decimal_value (format_f False 4 (Fin q)) - q\<bar> \<le> 1 / 20000" for q
    using decimal_value_format_f [of 4 False q] by simp
  ultimately show ?thesis
    by (simp add: print_result_eq data_row_def decimal_text_format_f)
qed

text \<open>
  The throughput \<open>1234567.891\<close> and the elapsed time \<open>12.34565\<close> (a tie, rounded to the even
  digit).
\<close>

theorem print_result_row_witness:
  "is_finite (Fin (1234567891 / 1000)) \<and> is_finite (Fin (1234565 / 100000)) \<and>
   out (print_result ''Integer Add'' (Fin (1234567891 / 1000)) (Fin (1234565 / 100000))
          (fresh (\<lambda>n. 0))) =
     [''  Integer Add     |    1,234,567.89 OPS/sec | 12.3456s''] \<and>
   decimal_text True 2 ''1,234,567.89'' \<and> decimal_text False 4 ''12.3456''"
proof -
  have a: "format_f True 2 (Fin (1234567891 / 1000)) = ''1,234,567.89''"
    by (simp add: format_eval)
  have b: "format_f False 4 (Fin (1234565 / 100000)) = ''12.3456''"
    by (simp add: format_eval)
  have "is_finite (Fin (1234567891 / 1000))" and "is_finite (Fin (1234565 / 100000))"
    by simp_all
  with print_result_row [of "''Integer Add''" "Fin (1234567891 / 1000)"
      "Fin (1234565 / 100000)" "fresh (\<lambda>n. 0)"]
  have "out (print_result ''Integer Add'' (Fin (1234567891 / 1000)) (Fin (1234565 / 100000))
          (fresh (\<lambda>n. 0))) =
        [''  '' @ ''Integer Add'' @ replicate (15 - length ''Integer Add'') CHR '' '' @ '' | '' @
         replicate (15 - length (format_f True 2 (Fin (1234567891 / 1000)))) CHR '' '' @
         format_f True 2 (Fin (1234567891 / 1000)) @
         '' OPS/sec | '' @ format_f False 4 (Fin (1234565 / 100000)) @ ''s'']"
    and "decimal_text True 2 (format_f True 2 (Fin (1234567891 / 1000)))"
    and "decimal_text False 4 (format_f False 4 (Fin (1234565 / 100000)))"
    by (simp_all add: fresh_def)
  then show ?thesis
    unfolding a b by (simp add: replicate_numeral)
qed

subsection \<open>Two runs\<close>

lemma numbers_eq:
  "numbers w =
     [(format_f True 2 (fdiv (Fin 1000000000) (sample w 0)), format_f False 4 (sample w 0)),
      (format_f True 2 (fdiv (Fin 100000000) (sample w 1)), format_f False 4 (sample w 1)),
      (format_f True 2 (fdiv (Fin 50000) (sample w 2)), format_f False 4 (sample w 2)),
      (format_f True 2 (fdiv (Fin 1000000) (sample w 3)), format_f False 4 (sample w 3)),
      (format_f True 2 (fdiv (Fin 50000000) (sample w 4)), format_f False 4 (sample w 4))]"
  by (simp add: numbers_def throughput_def upt_rec suite_def eval_nat_numeral
      del: format_f.simps)

lemma report_template_numbers:
  "report_template (numbers w) = report_head @ rows w 5 @ [rule_line, '''']"
  by (simp add: report_template_def numbers_eq suite_def rows_numeral row_def report_head_def
      del: format_f.simps)

lemma numeric_text_format_f: "p \<noteq> 0 \<Longrightarrow> numeric_text comma p (format_f comma p x)"
  by (cases x) (simp_all add: numeric_text_def decimal_text_fixed_point)

lemma numeric_numbers:
  "(a, b) \<in> set (numbers w) \<Longrightarrow> numeric_text True 2 a \<and> numeric_text False 4 b"
  by (auto simp: numbers_def numeric_text_format_f simp del: format_f.simps)

lemma decimal_numbers:
  assumes "k < 5"
  shows "is_finite (throughput w k) \<Longrightarrow> decimal_text True 2 (fst (numbers w ! k))"
    and "is_finite (sample w k) \<Longrightarrow> decimal_text False 4 (snd (numbers w ! k))"
  using assms by (simp_all add: numbers_def decimal_text_format_f del: format_f.simps)

lemma take_20_data_row:
  assumes "length name \<le> 15"
  shows "take 20 (data_row name a b) =
         ''  '' @ name @ replicate (15 - length name) CHR '' '' @ '' | ''"
proof -
  let ?pre = "''  '' @ name @ replicate (15 - length name) CHR '' '' @ '' | ''"
  let ?rest = "replicate (15 - length a) CHR '' '' @ a @ '' OPS/sec | '' @ b @ ''s''"
  have d: "data_row name a b = ?pre @ ?rest"
    by (simp add: data_row_def)
  from assms have l: "length ?pre = 20"
    by simp
  have "take (length ?pre) (?pre @ ?rest) = ?pre"
    by (rule append_eq_conv_conj [THEN iffD1, THEN conjunct1, symmetric]) (rule refl)
  then show ?thesis
    unfolding l d .
qed

lemma take_20_rows: "map (take 20) (rows w 5) = map (take 20) (rows w' 5)"
  by (simp add: rows_numeral row_def take_20_data_row del: format_f.simps)

text \<open>
  Claim C8. Take any two runs, that is any two assignments of timestamp readings, in
  which every benchmark's elapsed time is not \<open>0\<close>. Both reports are the same template
  (\<open>report_template\<close>: the title, the header, one row per benchmark of the table and the
  closing rule with an empty line, each row laid out by \<open>data_row\<close> as label, separator,
  throughput field with its suffix, separator, time with its suffix) filled with five
  pairs of numeric fields. So the two reports have the same number of lines (11, of which
  5 are rows), the same labels and the same columns, and differ in the numeric fields
  only. A numeric field is the text of a float: when the float is finite, a decimal text
  with grouped thousands and 2 decimals (throughput) or with 4 decimals (time); the text
  \<^verbatim>\<open>inf\<close>, \<^verbatim>\<open>-inf\<close> or \<^verbatim>\<open>nan\<close> otherwise (the quotient of the count by a tiny elapsed
  time overflows to an infinity). The label column and the first separator take
  the first 20 characters of every row of both reports; the throughput field is 15
  characters wide, or as wide as its number when that is longer.
\<close>

theorem reports_same_structure:
  assumes "\<forall>k<5. \<not> is_zero (sample w k)" and "\<forall>k<5. \<not> is_zero (sample w' k)"
  shows "report_of w = report_template (numbers w) \<and>
         report_of w' = report_template (numbers w') \<and>
         length (numbers w) = 5 \<and> length (numbers w') = 5 \<and>
         (\<forall>(a, b) \<in> set (numbers w) \<union> set (numbers w').
            numeric_text True 2 a \<and> numeric_text False 4 b) \<and>
         (\<forall>v \<in> {w, w'}. \<forall>k<5.
            (is_finite (throughput v k) \<longrightarrow> decimal_text True 2 (fst (numbers v ! k))) \<and>
            (is_finite (sample v k) \<longrightarrow> decimal_text False 4 (snd (numbers v ! k)))) \<and>
         length (report_of w) = 11 \<and> length (report_of w') = 11 \<and>
         map label (report_of w) = map label (report_of w') \<and>
         map (take 20) (report_of w) = map (take 20) (report_of w')"
proof -
  have r: "report_of v = report_head @ rows v 5 @ [rule_line, '''']"
    if "\<forall>k<5. \<not> is_zero (sample v k)" for v
    using that by (simp add: report_of_eq all_less_5)
  note rw = r [OF assms(1)] r [OF assms(2)]
  have "report_of w = report_template (numbers w)"
    and "report_of w' = report_template (numbers w')"
    by (simp_all only: rw report_template_numbers)
  moreover have "length (numbers w) = 5" and "length (numbers w') = 5"
    by (simp_all add: numbers_def)
  moreover have "\<forall>(a, b) \<in> set (numbers w) \<union> set (numbers w').
      numeric_text True 2 a \<and> numeric_text False 4 b"
    using numeric_numbers by blast
  moreover have "\<forall>v \<in> {w, w'}. \<forall>k<5.
      (is_finite (throughput v k) \<longrightarrow> decimal_text True 2 (fst (numbers v ! k))) \<and>
      (is_finite (sample v k) \<longrightarrow> decimal_text False 4 (snd (numbers v ! k)))"
    using decimal_numbers by blast
  moreover have "length (report_of w) = 11" and "length (report_of w') = 11"
    by (simp_all add: rw report_head_def)
  moreover have "map label (report_of w) = map label (report_of w')"
    by (simp add: rw labels_rows)
  moreover have "map (take 20) (report_of w) = map (take 20) (report_of w')"
    using take_20_rows [of w w'] by (simp add: rw)
  ultimately show ?thesis
    by blast
qed

text \<open>
  Two runs: a clock that advances by a quarter of a second between readings, and one
  that advances by a second.
\<close>

theorem reports_same_structure_witness:
  "map (sample (fresh (\<lambda>n. of_nat n / 4))) [0, 1, 2, 3, 4] =
     [Fin (1 / 4), Fin (1 / 4), Fin (1 / 4), Fin (1 / 4), Fin (1 / 4)] \<and>
   map (sample (fresh (\<lambda>n. of_nat n))) [0, 1, 2, 3, 4] = [Fin 1, Fin 1, Fin 1, Fin 1, Fin 1] \<and>
   report_of (fresh (\<lambda>n. of_nat n / 4)) =
     report_template
       [(''4,000,000,000.00'', ''0.2500''), (''400,000,000.00'', ''0.2500''),
        (''200,000.00'', ''0.2500''), (''4,000,000.00'', ''0.2500''),
        (''200,000,000.00'', ''0.2500'')] \<and>
   report_of (fresh (\<lambda>n. of_nat n)) =
     report_template
       [(''1,000,000,000.00'', ''1.0000''), (''100,000,000.00'', ''1.0000''),
        (''50,000.00'', ''1.0000''), (''1,000,000.00'', ''1.0000''),
        (''50,000,000.00'', ''1.0000'')] \<and>
   map label (report_of (fresh (\<lambda>n. of_nat n / 4))) = map label (report_of (fresh (\<lambda>n. of_nat n)))"
proof -
  let ?w = "fresh (\<lambda>n. of_nat n / 4)" and ?v = "fresh (\<lambda>n. of_nat n)"
  have s: "sample ?w 0 = Fin (1 / 4)" "sample ?w 1 = Fin (1 / 4)" "sample ?w 2 = Fin (1 / 4)"
    "sample ?w 3 = Fin (1 / 4)" "sample ?w 4 = Fin (1 / 4)" "sample ?w (Suc 0) = Fin (1 / 4)"
    "sample ?v 0 = Fin 1" "sample ?v 1 = Fin 1" "sample ?v 2 = Fin 1"
    "sample ?v 3 = Fin 1" "sample ?v 4 = Fin 1" "sample ?v (Suc 0) = Fin 1"
    by (simp_all add: sample_def fresh_def float_eval)
  have "\<forall>k<5. \<not> is_zero (sample ?w k)" and "\<forall>k<5. \<not> is_zero (sample ?v k)"
    by (simp_all add: all_less_5 s del: One_nat_def)
  from reports_same_structure [OF this]
  have "report_of ?w = report_template (numbers ?w)"
    and "report_of ?v = report_template (numbers ?v)"
    and l: "map label (report_of ?w) = map label (report_of ?v)"
    by blast+
  moreover have "numbers ?w =
       [(''4,000,000,000.00'', ''0.2500''), (''400,000,000.00'', ''0.2500''),
        (''200,000.00'', ''0.2500''), (''4,000,000.00'', ''0.2500''),
        (''200,000,000.00'', ''0.2500'')]"
    unfolding numbers_eq s by (simp add: format_eval float_eval)
  moreover have "numbers ?v =
       [(''1,000,000,000.00'', ''1.0000''), (''100,000,000.00'', ''1.0000''),
        (''50,000.00'', ''1.0000''), (''1,000,000.00'', ''1.0000''),
        (''50,000,000.00'', ''1.0000'')]"
    unfolding numbers_eq s by (simp add: format_eval float_eval)
  ultimately show ?thesis
    by (simp add: s)
qed

end
